theory Spec2Isabelle
  imports Complex_Main
begin

section \<open>Data model of Winwheel.ts\<close>

text \<open>
  JavaScript numbers are modelled by the reals: every statement below is about the exact
  arithmetic of the code, not about IEEE rounding. A property that may be \<open>null\<close> is an
  \<open>option\<close>. An options object handed to a constructor is modelled by the record that the
  spread \<open>{ ...defaultOptions, ..._options }\<close> produces from it, so \<open>{size: 360}\<close> is
  \<open>defaultSegmentOptions\<lparr>size_s := Some 360\<rparr>\<close>. The fields \<open>size\<close>, \<open>text\<close> and \<open>image\<close> of
  the source carry the suffix \<open>_s\<close> here, and the field \<open>type\<close> of an animation is
  \<open>animType\<close>. Records share field names as the classes of the source do; a shared name
  is written with its record, as in \<open>Segment.options\<close>.
\<close>

datatype error = TypeError | NonFinite

datatype orientation = Horizontal | Vertical | Curved

datatype alignment = Center | Inner | Outer

datatype textDir = Normal | Reversed

record SegmentOptions =
  size_s :: "real option"
  text_s :: string
  fillStyle :: "string option"
  strokeStyle :: "string option"
  lineWidth :: "real option"
  textFontFamily :: "string option"
  textFontSize :: "real option"
  textFontWeight :: "string option"
  textOrientation :: "orientation option"
  textAlignment :: "alignment option"
  textDirection :: "textDir option"
  textMargin :: "real option"
  textFillStyle :: "string option"
  textStrokeStyle :: "string option"
  textLineWidth :: "real option"
  image_s :: "string option"
  imageDirection :: "string option"
  imgData :: "string option"

definition defaultSegmentOptions :: SegmentOptions where
  "defaultSegmentOptions =
     \<lparr> size_s = None, text_s = '''', fillStyle = None, strokeStyle = None, lineWidth = None,
       textFontFamily = None, textFontSize = None, textFontWeight = None,
       textOrientation = None, textAlignment = None, textDirection = None,
       textMargin = None, textFillStyle = None, textStrokeStyle = None,
       textLineWidth = None, image_s = None, imageDirection = None, imgData = None \<rparr>"

record Segment =
  options :: SegmentOptions
  startAngle :: real
  endAngle :: real

text \<open>\<open>new Segment(_options)\<close>; \<open>None\<close> is the call without an argument.\<close>

definition new_Segment :: "SegmentOptions option \<Rightarrow> Segment" where
  "new_Segment given =
     \<lparr> Segment.options = (case given of None \<Rightarrow> defaultSegmentOptions | Some opts \<Rightarrow> opts),
       startAngle = 0, endAngle = 0 \<rparr>"

datatype animationType = SpinOngoing | SpinToStop | SpinAndBack | Custom

datatype spinDir = Clockwise | AntiClockwise

record AnimationOptions =
  animType :: animationType
  direction :: spinDir
  propertyName :: "string option"
  propertyValue :: "real option"
  duration :: real
  yoyo :: "bool option"
  repeat :: "int option"
  easing :: "string option"
  stopAngle :: "real option"
  spins :: "real option"

definition defaultAnimationOptions :: AnimationOptions where
  "defaultAnimationOptions =
     \<lparr> animType = SpinOngoing, direction = Clockwise, propertyName = None,
       propertyValue = None, duration = 10, yoyo = Some False, repeat = Some 0,
       easing = Some ''Power3.easeOut'', stopAngle = None, spins = None \<rparr>"

text \<open>The field \<open>_stopAngle\<close> of the class Animation is \<open>stopAngle_internal\<close>; it is
  undefined until computeAnimation sets it.\<close>

record Animation =
  options :: AnimationOptions
  stopAngle_internal :: "real option"

definition new_Animation :: "AnimationOptions option \<Rightarrow> Animation" where
  "new_Animation given =
     \<lparr> Animation.options = (case given of None \<Rightarrow> defaultAnimationOptions | Some opts \<Rightarrow> opts),
       stopAngle_internal = None \<rparr>"

text \<open>The canvas element with the rectangle that \<open>getBoundingClientRect\<close> returns for it.\<close>

record Canvas =
  width :: real
  height :: real
  bbox_left :: real
  bbox_top :: real
  bbox_width :: real
  bbox_height :: real

text \<open>The options of the wheel that the geometry, the hit tests, the text layout and the
  animation read. The drawing flags and image settings are left out.\<close>

record WinwheelOptions =
  centerX :: "real option"
  centerY :: "real option"
  outerRadius :: "real option"
  innerRadius :: real
  numSegments :: nat
  rotationAngle :: real
  textFontFamily :: string
  textFontSize :: real
  textFontWeight :: string
  textOrientation :: orientation
  textAlignment :: alignment
  textDirection :: textDir
  textMargin :: "real option"
  textFillStyle :: "string option"
  textStrokeStyle :: "string option"
  textLineWidth :: real
  lineWidth :: real
  pointerAngle :: real
  segments :: "SegmentOptions list"
  animation :: "AnimationOptions option"

definition defaultOptions :: WinwheelOptions where
  "defaultOptions =
     \<lparr> centerX = None, centerY = None, outerRadius = None, innerRadius = 0,
       numSegments = 1, rotationAngle = 0, textFontFamily = ''Arial'', textFontSize = 20,
       textFontWeight = ''bold'', textOrientation = Horizontal, textAlignment = Center,
       textDirection = Normal, textMargin = None, textFillStyle = Some ''black'',
       textStrokeStyle = None, textLineWidth = 1, lineWidth = 1, pointerAngle = 0,
       segments = [], animation = None \<rparr>"

text \<open>The array \<open>segments\<close> is a list whose holes and undefined entries are \<open>None\<close>; slot 0
  is never filled. The drawing context exists exactly when the canvas does.\<close>

record Winwheel =
  options :: WinwheelOptions
  segments :: "Segment option list"
  canvas :: "Canvas option"
  animation :: Animation

subsection \<open>JavaScript arrays and coercions\<close>

definition array_get :: "'a option list \<Rightarrow> nat \<Rightarrow> 'a option" where
  "array_get xs i = (if i < length xs then xs ! i else None)"

text \<open>A write past the end extends the array with holes.\<close>

definition array_set :: "'a option list \<Rightarrow> nat \<Rightarrow> 'a option \<Rightarrow> 'a option list" where
  "array_set xs i v =
     (if i < length xs then xs[i := v] else xs @ replicate (i - length xs) None @ [v])"

text \<open>\<open>null\<close> is 0 in arithmetic and in comparisons with a number.\<close>

definition num :: "real option \<Rightarrow> real" where
  "num v = (case v of None \<Rightarrow> 0 | Some r \<Rightarrow> r)"

text \<open>A string is truthy when it is neither \<open>null\<close> nor empty.\<close>

definition truthy :: "string option \<Rightarrow> bool" where
  "truthy v = (case v of None \<Rightarrow> False | Some s \<Rightarrow> s \<noteq> [])"

section \<open>Segment boundaries\<close>

text \<open>First loop of updateSegmentSizes: the arc used by the segments whose size is not
  \<open>null\<close>, and their number.\<close>

fun usedArc :: "Segment list \<Rightarrow> real \<times> nat \<Rightarrow> real \<times> nat" where
  "usedArc [] acc = acc"
| "usedArc (s # ss) (arcUsed, numSet) =
     (case size_s (Segment.options s) of
        None \<Rightarrow> usedArc ss (arcUsed, numSet)
      | Some sz \<Rightarrow> usedArc ss (arcUsed + sz, Suc numSet))"

text \<open>What the second loop adds to \<open>currentDegree\<close>: the size when it is truthy (neither
  \<open>null\<close> nor 0), else \<open>degreesEach\<close>.\<close>

definition arcOf :: "real \<Rightarrow> Segment \<Rightarrow> real" where
  "arcOf degreesEach s =
     (case size_s (Segment.options s) of
        None \<Rightarrow> degreesEach
      | Some sz \<Rightarrow> if sz \<noteq> 0 then sz else degreesEach)"

text \<open>Second loop of updateSegmentSizes, over the segments 1 to numSegments in order.\<close>

fun setAngles :: "real \<Rightarrow> real \<Rightarrow> Segment list \<Rightarrow> Segment list" where
  "setAngles degreesEach currentDegree [] = []"
| "setAngles degreesEach currentDegree (s # ss) =
     s\<lparr>startAngle := currentDegree, endAngle := currentDegree + arcOf degreesEach s\<rparr>
       # setAngles degreesEach (currentDegree + arcOf degreesEach s) ss"

text \<open>
  updateSegmentSizes. Reading \<open>segments[x].options\<close> of an undefined entry throws a
  TypeError. When every size is set and arc is left, \<open>arcLeft / 0\<close> is \<open>Infinity\<close> in
  JavaScript; it is read only by a segment of size 0, and that run, which has no real
  value, is the result \<open>NonFinite\<close>.
\<close>

definition liveSegments :: "Winwheel \<Rightarrow> Segment list" where
  "liveSegments w =
     map the (take (numSegments (Winwheel.options w)) (drop 1 (Winwheel.segments w)))"

definition updateSegmentSizes :: "Winwheel \<Rightarrow> error + Winwheel" where
  "updateSegmentSizes w =
     (let n = numSegments (Winwheel.options w); segs = Winwheel.segments w in
      if list_ex (\<lambda>x. array_get segs x = None) [1..<Suc n] then Inl TypeError
      else
        let live = liveSegments w;
            (arcUsed, numSet) = usedArc live (0, 0);
            arcLeft = 360 - arcUsed
        in if arcLeft > 0 \<and> n = numSet
              \<and> list_ex (\<lambda>s. size_s (Segment.options s) = Some 0) live
           then Inl NonFinite
           else
             let degreesEach = (if arcLeft > 0 then arcLeft / real (n - numSet) else 0)
             in Inr (w\<lparr>Winwheel.segments :=
                         take 1 segs @ map Some (setAngles degreesEach 0 live)
                           @ drop (Suc n) segs\<rparr>))"

text \<open>Reading the wheel: \<open>segments[i]\<close>, its angles, and the sizes of the segments 1 to
  numSegments in order.\<close>

definition segmentAt :: "Winwheel \<Rightarrow> nat \<Rightarrow> Segment option" where
  "segmentAt w i = array_get (Winwheel.segments w) i"

definition startAngleAt :: "Winwheel \<Rightarrow> nat \<Rightarrow> real option" where
  "startAngleAt w i = map_option startAngle (segmentAt w i)"

definition endAngleAt :: "Winwheel \<Rightarrow> nat \<Rightarrow> real option" where
  "endAngleAt w i = map_option endAngle (segmentAt w i)"

definition segmentsPresent :: "Winwheel \<Rightarrow> bool" where
  "segmentsPresent w =
     (\<not> list_ex (\<lambda>x. segmentAt w x = None) [1..<Suc (numSegments (Winwheel.options w))])"

definition sizes :: "Winwheel \<Rightarrow> real option list" where
  "sizes w = map (\<lambda>s. size_s (Segment.options s)) (liveSegments w)"

text \<open>The sum of the sizes that are set.\<close>

definition sizesSum :: "Winwheel \<Rightarrow> real" where
  "sizesSum w = sum_list (map num (sizes w))"

section \<open>Construction\<close>

text \<open>The loop of the constructor over \<open>i = 1 .. numSegments\<close>; \<open>k\<close> counts the iterations
  that remain. The segment made from \<open>options.segments[i - 1]\<close> is overwritten at once.\<close>

fun populate :: "SegmentOptions list \<Rightarrow> Segment option list \<Rightarrow> nat \<Rightarrow> nat
    \<Rightarrow> Segment option list" where
  "populate given segs i 0 = segs"
| "populate given segs i (Suc k) =
     (let segs1 = (if i - 1 < length given
                   then array_set segs i (Some (new_Segment (Some (given ! (i - 1)))))
                   else segs);
          segs2 = array_set segs1 i (Some (new_Segment None))
      in populate given segs2 (Suc i) k)"

text \<open>
  The constructor, from the merged options and the element that \<open>getElementById\<close> finds.
  The part after the pointer guide (drawing, image loading) is not modelled.
\<close>

definition constructor :: "WinwheelOptions \<Rightarrow> Canvas option \<Rightarrow> error + Winwheel" where
  "constructor opts cv =
     (let opts1 = (case cv of
            None \<Rightarrow> opts
          | Some c \<Rightarrow>
              opts\<lparr> centerX := (case centerX opts of None \<Rightarrow> Some (width c / 2) | Some x \<Rightarrow> Some x),
                    centerY := (case centerY opts of None \<Rightarrow> Some (height c / 2) | Some y \<Rightarrow> Some y),
                    outerRadius := (case outerRadius opts of
                        None \<Rightarrow> (if width c < height c
                                 then Some (width c / 2 - WinwheelOptions.lineWidth opts)
                                 else Some (height c / 2 - WinwheelOptions.lineWidth opts))
                      | Some r \<Rightarrow> Some r) \<rparr>);
          segs = populate (WinwheelOptions.segments opts1) [] 1 (numSegments opts1);
          w = \<lparr> Winwheel.options = opts1, Winwheel.segments = segs, canvas = cv,
                Winwheel.animation = new_Animation (WinwheelOptions.animation opts1) \<rparr>
      in case updateSegmentSizes w of
           Inl e \<Rightarrow> Inl e
         | Inr w1 \<Rightarrow>
             Inr (w1\<lparr>Winwheel.options := (Winwheel.options w1)
                    \<lparr>WinwheelOptions.textMargin :=
                       (case WinwheelOptions.textMargin opts1 of
                          None \<Rightarrow> Some (WinwheelOptions.textFontSize opts1 / 1.7)
                        | Some m \<Rightarrow> Some m)\<rparr>\<rparr>))"

section \<open>Rotation and the indicated segment\<close>

text \<open>getRotationPosition, as a function of \<open>options.rotationAngle\<close>.\<close>

definition rotationPosition :: "real \<Rightarrow> real" where
  "rotationPosition rawAngle =
     (if rawAngle \<ge> 0 then
        (if rawAngle > 360
         then rawAngle - 360 * of_int \<lfloor>rawAngle / 360\<rfloor>
         else rawAngle)
      else
        360 + (if rawAngle < - 360
               then rawAngle - 360 * of_int \<lceil>rawAngle / 360\<rceil>
               else rawAngle))"

definition getRotationPosition :: "Winwheel \<Rightarrow> real" where
  "getRotationPosition w = rotationPosition (rotationAngle (Winwheel.options w))"

text \<open>
  A bracket lookup \<open>options[key]\<close> of a numeric property. The interface SegmentOptions
  declares no \<open>startAngle\<close> and no \<open>endAngle\<close> (they are fields of the Segment itself),
  so these keys are undefined, which is \<open>None\<close>; so is \<open>null\<close>.
\<close>

definition optionsProp :: "SegmentOptions \<Rightarrow> string \<Rightarrow> real option" where
  "optionsProp opts key =
     (if key = ''size'' then size_s opts
      else if key = ''lineWidth'' then SegmentOptions.lineWidth opts
      else if key = ''textFontSize'' then SegmentOptions.textFontSize opts
      else if key = ''textMargin'' then SegmentOptions.textMargin opts
      else if key = ''textLineWidth'' then SegmentOptions.textLineWidth opts
      else None)"

text \<open>\<open>a >= v\<close> and \<open>a <= v\<close> where \<open>v\<close> may be undefined: a comparison with undefined is
  false.\<close>

definition js_ge :: "real \<Rightarrow> real option \<Rightarrow> bool" where
  "js_ge a v = (case v of None \<Rightarrow> False | Some b \<Rightarrow> a \<ge> b)"

definition js_le :: "real \<Rightarrow> real option \<Rightarrow> bool" where
  "js_le a v = (case v of None \<Rightarrow> False | Some b \<Rightarrow> a \<le> b)"

text \<open>The loop of getIndicatedSegmentNumber over \<open>x = 1 .. segments.length - 1\<close>, run on
  the entries from index \<open>x\<close> on; the first match wins, and no match leaves 0.\<close>

fun indicatedScan :: "real \<Rightarrow> nat \<Rightarrow> Segment option list \<Rightarrow> error + nat" where
  "indicatedScan relativeAngle x [] = Inr 0"
| "indicatedScan relativeAngle x (None # rest) = Inl TypeError"
| "indicatedScan relativeAngle x (Some s # rest) =
     (if js_ge relativeAngle (optionsProp (Segment.options s) ''startAngle'')
         \<and> js_le relativeAngle (optionsProp (Segment.options s) ''endAngle'')
      then Inr x
      else indicatedScan relativeAngle (Suc x) rest)"

definition getIndicatedSegmentNumber :: "Winwheel \<Rightarrow> error + nat" where
  "getIndicatedSegmentNumber w =
     (let rawAngle = getRotationPosition w;
          relativeAngle0 = real_of_int \<lfloor>pointerAngle (Winwheel.options w) - rawAngle\<rfloor>;
          relativeAngle = (if relativeAngle0 < 0 then 360 - \<bar>relativeAngle0\<bar> else relativeAngle0)
      in indicatedScan relativeAngle 1 (drop 1 (Winwheel.segments w)))"

section \<open>Adding and deleting segments\<close>

text \<open>The loop of addSegment, \<open>for (x = numSegments; x > position; x--)\<close>: assigning to
  \<open>segments[x].options\<close> or reading \<open>segments[x - 1].options\<close> of an undefined entry throws.\<close>

function shiftUp :: "Segment option list \<Rightarrow> nat \<Rightarrow> nat \<Rightarrow> error + Segment option list" where
  "shiftUp segs x position =
     (if x > position then
        (case array_get segs x of
           None \<Rightarrow> Inl TypeError
         | Some sx \<Rightarrow>
             (case array_get segs (x - 1) of
                None \<Rightarrow> Inl TypeError
              | Some sp \<Rightarrow>
                  shiftUp (segs[x := Some (sx\<lparr>Segment.options := Segment.options sp\<rparr>)])
                    (x - 1) position))
      else Inr segs)"
  by pat_completeness auto
termination
  by (relation "measure (\<lambda>(segs, x, position). x)") auto

declare shiftUp.simps [simp del]

text \<open>addSegment returns the segment at the new position and the updated wheel.\<close>

definition addSegment :: "SegmentOptions \<Rightarrow> nat option \<Rightarrow> Winwheel
    \<Rightarrow> error + (Segment option \<times> Winwheel)" where
  "addSegment opts position w =
     (let newSegment = new_Segment (Some opts);
          n = Suc (numSegments (Winwheel.options w));
          w1 = w\<lparr>Winwheel.options := (Winwheel.options w)\<lparr>numSegments := n\<rparr>\<rparr>;
          placed = (case position of
              Some p \<Rightarrow>
                (case shiftUp (Winwheel.segments w1) n p of
                   Inl e \<Rightarrow> Inl e
                 | Inr segs \<Rightarrow> Inr (array_set segs p (Some newSegment), p))
            | None \<Rightarrow> Inr (array_set (Winwheel.segments w1) n (Some newSegment), n))
      in case placed of
           Inl e \<Rightarrow> Inl e
         | Inr (segs, segmentPos) \<Rightarrow>
             (case updateSegmentSizes (w1\<lparr>Winwheel.segments := segs\<rparr>) of
                Inl e \<Rightarrow> Inl e
              | Inr w2 \<Rightarrow> Inr (array_get (Winwheel.segments w2) segmentPos, w2)))"

text \<open>The loop of deleteSegment, \<open>for (x = position; x < numSegments; x++)\<close>.\<close>

function shiftDown :: "Segment option list \<Rightarrow> nat \<Rightarrow> nat \<Rightarrow> error + Segment option list" where
  "shiftDown segs x n =
     (if x < n then
        (case array_get segs x of
           None \<Rightarrow> Inl TypeError
         | Some sx \<Rightarrow>
             (case array_get segs (x + 1) of
                None \<Rightarrow> Inl TypeError
              | Some sn \<Rightarrow>
                  shiftDown (segs[x := Some (sx\<lparr>Segment.options := Segment.options sn\<rparr>)])
                    (x + 1) n))
      else Inr segs)"
  by pat_completeness auto
termination
  by (relation "measure (\<lambda>(segs, x, n). n - x)") auto

declare shiftDown.simps [simp del]

definition deleteSegment :: "nat option \<Rightarrow> Winwheel \<Rightarrow> error + Winwheel" where
  "deleteSegment position w =
     (let n = numSegments (Winwheel.options w) in
      if n > 1 then
        (case (case position of
                 Some p \<Rightarrow> shiftDown (Winwheel.segments w) p n
               | None \<Rightarrow> Inr (Winwheel.segments w)) of
           Inl e \<Rightarrow> Inl e
         | Inr segs \<Rightarrow>
             updateSegmentSizes
               (w\<lparr>Winwheel.segments := array_set segs n None,
                  Winwheel.options := (Winwheel.options w)\<lparr>numSegments := n - 1\<rparr>\<rparr>))
      else Inr w)"

section \<open>Animation\<close>




section \<open>Segment text\<close>

text \<open>
  The calls that drawSegmentText makes on the drawing context, in order. Assignments to
  properties of the context (font, styles, textAlign, textBaseline) are not calls and
  are not recorded. \<open>rotate\<close> carries its angle in radians, \<open>None\<close> when the angle is not
  finite. A text is a list of characters, and \<open>charAt(c)\<close> is the string of one character,
  or the empty string past the end.
\<close>

datatype ctxCall =
    Save
  | Restore
  | Translate real real
  | Rotate "real option"
  | FillText string real real
  | StrokeText string real real

definition degToRad :: "real \<Rightarrow> real" where
  "degToRad d = d * 0.0174532925199432957"

text \<open>The local variables of drawSegmentText that the layout reads, after the choice
  between the value of the segment and the global default; \<open>lineCount\<close> is
  \<open>lines.length\<close>.\<close>

record TextSettings =
  fontSize :: real
  orientation :: orientation
  alignment :: alignment
  direction :: textDir
  margin :: real
  fillStyle :: "string option"
  strokeStyle :: "string option"
  lineCount :: nat

text \<open>\<open>text.split("\n")\<close>.\<close>

fun splitLines :: "string \<Rightarrow> string list" where
  "splitLines [] = [[]]"
| "splitLines (c # cs) =
     (if c = CHR 0x0A then [] # splitLines cs
      else (case splitLines cs of [] \<Rightarrow> [[c]] | l # ls \<Rightarrow> (c # l) # ls))"

definition resolveText :: "Winwheel \<Rightarrow> Segment \<Rightarrow> TextSettings" where
  "resolveText w seg =
     (let segOptions = Segment.options seg; opts = Winwheel.options w in
      \<lparr> fontSize = (case SegmentOptions.textFontSize segOptions of
                      Some v \<Rightarrow> v | None \<Rightarrow> WinwheelOptions.textFontSize opts),
        orientation = (case SegmentOptions.textOrientation segOptions of
                      Some v \<Rightarrow> v | None \<Rightarrow> WinwheelOptions.textOrientation opts),
        alignment = (case SegmentOptions.textAlignment segOptions of
                      Some v \<Rightarrow> v | None \<Rightarrow> WinwheelOptions.textAlignment opts),
        TextSettings.direction = (case SegmentOptions.textDirection segOptions of
                      Some v \<Rightarrow> v | None \<Rightarrow> WinwheelOptions.textDirection opts),
        margin = (case SegmentOptions.textMargin segOptions of
                      Some v \<Rightarrow> v | None \<Rightarrow> num (WinwheelOptions.textMargin opts)),
        TextSettings.fillStyle = (case SegmentOptions.textFillStyle segOptions of
                      Some v \<Rightarrow> Some v | None \<Rightarrow> WinwheelOptions.textFillStyle opts),
        TextSettings.strokeStyle = (case SegmentOptions.textStrokeStyle segOptions of
                      Some v \<Rightarrow> Some v | None \<Rightarrow> WinwheelOptions.textStrokeStyle opts),
        lineCount = length (splitLines (text_s segOptions)) \<rparr>)"

text \<open>The two orders in which the source draws one piece of text: \<open>if (fillStyle)
  fillText(...)\<close> then \<open>if (strokeStyle) strokeText(...)\<close>, and the reverse.\<close>

definition fillThenStroke :: "TextSettings \<Rightarrow> string \<Rightarrow> real \<Rightarrow> real \<Rightarrow> ctxCall list" where
  "fillThenStroke ts s x y =
     (if truthy (TextSettings.fillStyle ts) then [FillText s x y] else [])
       @ (if truthy (TextSettings.strokeStyle ts) then [StrokeText s x y] else [])"

definition strokeThenFill :: "TextSettings \<Rightarrow> string \<Rightarrow> real \<Rightarrow> real \<Rightarrow> ctxCall list" where
  "strokeThenFill ts s x y =
     (if truthy (TextSettings.strokeStyle ts) then [StrokeText s x y] else [])
       @ (if truthy (TextSettings.fillStyle ts) then [FillText s x y] else [])"

text \<open>\<open>translate(centerX, centerY); rotate(angle); translate(-centerX, -centerY)\<close>.\<close>

definition rotateAbout :: "real \<Rightarrow> real \<Rightarrow> real option \<Rightarrow> ctxCall list" where
  "rotateAbout cx cy angle = [Translate cx cy, Rotate angle, Translate (- cx) (- cy)]"

text \<open>One line of horizontal text.\<close>

definition horizontalLine :: "Winwheel \<Rightarrow> Segment \<Rightarrow> TextSettings \<Rightarrow> real \<Rightarrow> string
    \<Rightarrow> ctxCall list" where
  "horizontalLine w seg ts lineOffset line =
     (let cx = num (centerX (Winwheel.options w)); cy = num (centerY (Winwheel.options w));
          innerR = innerRadius (Winwheel.options w);
          outerR = num (outerRadius (Winwheel.options w));
          rot = rotationAngle (Winwheel.options w); m = margin ts
      in case TextSettings.direction ts of
        Reversed \<Rightarrow>
          [Save]
          @ rotateAbout cx cy (Some (degToRad
              (endAngle seg - (endAngle seg - startAngle seg) / 2 + rot - 90 - 180)))
          @ (case alignment ts of
               Inner \<Rightarrow> fillThenStroke ts line (cx - innerR - m) (cy + lineOffset)
             | Outer \<Rightarrow> fillThenStroke ts line (cx - outerR + m) (cy + lineOffset)
             | Center \<Rightarrow>
                 fillThenStroke ts line (cx - innerR - (outerR - innerR) / 2 - m)
                   (cy + lineOffset))
          @ [Restore]
      | Normal \<Rightarrow>
          [Save]
          @ rotateAbout cx cy (Some (degToRad
              (endAngle seg - (endAngle seg - startAngle seg) / 2 + rot - 90)))
          @ (case alignment ts of
               Inner \<Rightarrow> fillThenStroke ts line (cx + innerR + m) (cy + lineOffset)
             | Outer \<Rightarrow> fillThenStroke ts line (cx + outerR - m) (cy + lineOffset)
             | Center \<Rightarrow>
                 fillThenStroke ts line (cx + innerR + (outerR - innerR) / 2 + m)
                   (cy + lineOffset))
          @ [Restore])"

text \<open>The character loops of vertical text: each character is drawn at \<open>yPos\<close>, which
  then moves by \<open>step\<close>. A loop that runs backwards gets the reversed line.\<close>

fun verticalChars :: "TextSettings \<Rightarrow> real \<Rightarrow> real \<Rightarrow> real \<Rightarrow> string \<Rightarrow> ctxCall list" where
  "verticalChars ts x yPos step [] = []"
| "verticalChars ts x yPos step (ch # rest) =
     fillThenStroke ts [ch] x yPos @ verticalChars ts x (yPos + step) step rest"

definition verticalLine :: "Winwheel \<Rightarrow> Segment \<Rightarrow> TextSettings \<Rightarrow> real \<Rightarrow> string
    \<Rightarrow> ctxCall list" where
  "verticalLine w seg ts lineOffset line =
     (let cx = num (centerX (Winwheel.options w)); cy = num (centerY (Winwheel.options w));
          innerR = innerRadius (Winwheel.options w);
          outerR = num (outerRadius (Winwheel.options w));
          rot = rotationAngle (Winwheel.options w); m = margin ts;
          yInc = fontSize ts - fontSize ts / 9;
          centerAdjustment =
            (if length line > 1 then (yInc * (real (length line) - 1)) / 2 else 0)
      in case TextSettings.direction ts of
        Reversed \<Rightarrow>
          [Save]
          @ rotateAbout cx cy (Some (degToRad
              (endAngle seg - (endAngle seg - startAngle seg) / 2 - 180 + rot)))
          @ (case alignment ts of
               Outer \<Rightarrow> verticalChars ts (cx + lineOffset) (cy + outerR - m) (- yInc) (rev line)
             | Inner \<Rightarrow> verticalChars ts (cx + lineOffset) (cy + innerR + m) yInc line
             | Center \<Rightarrow>
                 verticalChars ts (cx + lineOffset)
                   (cy + innerR + (outerR - innerR) / 2 + centerAdjustment + m)
                   (- yInc) (rev line))
          @ [Restore]
      | Normal \<Rightarrow>
          [Save]
          @ rotateAbout cx cy (Some (degToRad
              (endAngle seg - (endAngle seg - startAngle seg) / 2 + rot)))
          @ (case alignment ts of
               Outer \<Rightarrow> verticalChars ts (cx + lineOffset) (cy - outerR + m) yInc line
             | Inner \<Rightarrow> verticalChars ts (cx + lineOffset) (cy - innerR - m) (- yInc) (rev line)
             | Center \<Rightarrow>
                 verticalChars ts (cx + lineOffset)
                   (cy - innerR - (outerR - innerR) / 2 - centerAdjustment - m)
                   yInc line)
          @ [Restore])"

text \<open>The character loop of curved text: the context is turned to \<open>drawAngle\<close>, the
  character is stroked and then filled at \<open>(x, y)\<close>, and \<open>drawAngle\<close> grows by
  \<open>anglePerChar\<close>. An angle is \<open>None\<close> when it is not finite.\<close>

fun curvedChars :: "TextSettings \<Rightarrow> real \<Rightarrow> real \<Rightarrow> real \<Rightarrow> real option \<Rightarrow> real option
    \<Rightarrow> string list \<Rightarrow> ctxCall list" where
  "curvedChars ts cx cy y drawAngle anglePerChar [] = []"
| "curvedChars ts cx cy y drawAngle anglePerChar (character # rest) =
     [Save] @ rotateAbout cx cy (map_option degToRad drawAngle)
       @ strokeThenFill ts character cx y @ [Restore]
       @ curvedChars ts cx cy y
           (case drawAngle of
              None \<Rightarrow> None
            | Some a \<Rightarrow> (case anglePerChar of None \<Rightarrow> None | Some p \<Rightarrow> Some (a + p)))
           anglePerChar rest"

text \<open>\<open>anglePerChar\<close> and the initial \<open>drawAngle\<close> of curved text, before the rotation of the
  wheel is added. With more than one character \<open>anglePerChar\<close> is
  \<open>4 * (fontSize / 10) * (100 / radius)\<close>, which is not finite when the radius is 0.\<close>

definition curvedAngles :: "Segment \<Rightarrow> TextSettings \<Rightarrow> real \<Rightarrow> string
    \<Rightarrow> real option \<times> real option" where
  "curvedAngles seg ts radius line =
     (if length line > 1 then
        (if radius = 0 then (None, None)
         else
           (let anglePerChar = 4 * (fontSize ts / 10) * (100 / radius);
                totalArc = anglePerChar * real (length line)
            in (Some anglePerChar,
                Some (startAngle seg + ((endAngle seg - startAngle seg) / 2 - totalArc / 2)))))
      else (Some 0, Some (startAngle seg + (endAngle seg - startAngle seg) / 2)))"

definition curvedLine :: "Winwheel \<Rightarrow> Segment \<Rightarrow> TextSettings \<Rightarrow> real \<Rightarrow> string
    \<Rightarrow> ctxCall list" where
  "curvedLine w seg ts lineOffset line =
     (let cx = num (centerX (Winwheel.options w)); cy = num (centerY (Winwheel.options w));
          innerR = innerRadius (Winwheel.options w);
          outerR = num (outerRadius (Winwheel.options w));
          rot = rotationAngle (Winwheel.options w); m = margin ts
      in case TextSettings.direction ts of
        Reversed \<Rightarrow>
          (let radius = (case alignment ts of
                   Inner \<Rightarrow> innerR + m
                 | Outer \<Rightarrow> outerR - m - fontSize ts * (real (lineCount ts) - 1)
                 | Center \<Rightarrow> innerR + m + (outerR - innerR) / 2);
               (anglePerChar, drawAngle) = curvedAngles seg ts radius line
           in curvedChars ts cx cy (cy + radius + lineOffset)
                (map_option (\<lambda>a. a + rot - 180) drawAngle) anglePerChar
                ([] # map (\<lambda>ch. [ch]) (rev line)))
      | Normal \<Rightarrow>
          (let radius = (case alignment ts of
                   Inner \<Rightarrow> innerR + m + fontSize ts * (real (lineCount ts) - 1)
                 | Outer \<Rightarrow> outerR - m
                 | Center \<Rightarrow> innerR + m + (outerR - innerR) / 2);
               (anglePerChar, drawAngle) = curvedAngles seg ts radius line
           in curvedChars ts cx cy (cy - radius + lineOffset)
                (map_option (\<lambda>a. a + rot) drawAngle) anglePerChar
                (map (\<lambda>ch. [ch]) line)))"

text \<open>The loop over the lines: a line is drawn at \<open>lineOffset\<close>, which then grows by the
  font size.\<close>

fun drawLines :: "Winwheel \<Rightarrow> Segment \<Rightarrow> TextSettings \<Rightarrow> real \<Rightarrow> string list
    \<Rightarrow> ctxCall list" where
  "drawLines w seg ts lineOffset [] = []"
| "drawLines w seg ts lineOffset (line # rest) =
     (case orientation ts of
        Horizontal \<Rightarrow> horizontalLine w seg ts lineOffset line
      | Vertical \<Rightarrow> verticalLine w seg ts lineOffset line
      | Curved \<Rightarrow> curvedLine w seg ts lineOffset line)
     @ drawLines w seg ts (lineOffset + fontSize ts) rest"

text \<open>The body of the loop of drawSegmentText for one segment.\<close>

definition segmentText :: "Winwheel \<Rightarrow> Segment \<Rightarrow> ctxCall list" where
  "segmentText w seg =
     [Save]
     @ (if text_s (Segment.options seg) \<noteq> [] then
          (let ts = resolveText w seg;
               lines = splitLines (text_s (Segment.options seg));
               lineOffset =
                 (if orientation ts = Curved \<and> (alignment ts = Inner \<or> alignment ts = Outer)
                  then 0
                  else 0 - fontSize ts * (real (length lines) / 2) + fontSize ts / 2)
           in drawLines w seg ts lineOffset lines)
        else [])
     @ [Restore]"

fun drawTexts :: "Winwheel \<Rightarrow> nat list \<Rightarrow> error + ctxCall list" where
  "drawTexts w [] = Inr []"
| "drawTexts w (x # xs) =
     (case segmentAt w x of
        None \<Rightarrow> Inl TypeError
      | Some seg \<Rightarrow>
          (case drawTexts w xs of
             Inl e \<Rightarrow> Inl e
           | Inr calls \<Rightarrow> Inr (segmentText w seg @ calls)))"

definition drawSegmentText :: "Winwheel \<Rightarrow> error + ctxCall list" where
  "drawSegmentText w =
     (if canvas w = None then Inr []
      else drawTexts w [1..<Suc (numSegments (Winwheel.options w))])"

text \<open>The text calls of a list of calls, and the two orders that a list of text calls can
  follow: pairs of a fill and a stroke of the same text at the same place, fill first or
  stroke first.\<close>

fun isTextCall :: "ctxCall \<Rightarrow> bool" where
  "isTextCall (FillText s x y) = True"
| "isTextCall (StrokeText s x y) = True"
| "isTextCall c = False"

definition textCalls :: "ctxCall list \<Rightarrow> ctxCall list" where
  "textCalls calls = filter isTextCall calls"

fun fillFirst :: "ctxCall list \<Rightarrow> bool" where
  "fillFirst [] = True"
| "fillFirst (FillText s x y # StrokeText s' x' y' # rest) =
     (s = s' \<and> x = x' \<and> y = y' \<and> fillFirst rest)"
| "fillFirst calls = False"

fun strokeFirst :: "ctxCall list \<Rightarrow> bool" where
  "strokeFirst [] = True"
| "strokeFirst (StrokeText s x y # FillText s' x' y' # rest) =
     (s = s' \<and> x = x' \<and> y = y' \<and> strokeFirst rest)"
| "strokeFirst calls = False"

section \<open>Hit test\<close>

text \<open>windowToCanvas, which floors both coordinates. When the bounding rectangle has no
  width or no height the division by 0 makes a coordinate \<open>Infinity\<close> or \<open>NaN\<close>, and the
  result is \<open>None\<close>.\<close>

definition windowToCanvas :: "Canvas \<Rightarrow> real \<Rightarrow> real \<Rightarrow> (real \<times> real) option" where
  "windowToCanvas c x y =
     (if bbox_width c = 0 \<or> bbox_height c = 0 then None
      else Some (real_of_int \<lfloor>x - bbox_left c * (width c / bbox_width c)\<rfloor>,
                 real_of_int \<lfloor>y - bbox_top c * (height c / bbox_height c)\<rfloor>))"

text \<open>\<open>(Math.atan(oppositeSideLength / adjacentSideLength) * 180) / Math.PI\<close> for two
  lengths that are not negative: a division by 0 gives \<open>Infinity\<close>, whose arc tangent is a
  right angle, and \<open>0 / 0\<close> gives \<open>NaN\<close>, which is \<open>None\<close>.\<close>

definition triangleAngle :: "real \<Rightarrow> real \<Rightarrow> real option" where
  "triangleAngle oppositeSideLength adjacentSideLength =
     (if adjacentSideLength = 0
      then (if oppositeSideLength = 0 then None else Some 90)
      else Some ((arctan (oppositeSideLength / adjacentSideLength) * 180) / pi))"

text \<open>The scan of getSegmentNumberAt over the segments \<open>x = 1 .. numSegments\<close>: the first
  segment whose range holds the angle is taken when the distance from the center lies
  between the two radii. No comparison with \<open>NaN\<close> holds.\<close>

fun hitScan :: "Winwheel \<Rightarrow> real option \<Rightarrow> real \<Rightarrow> nat list \<Rightarrow> error + nat option" where
  "hitScan w locationAngle hypotenuseSideLength [] = Inr None"
| "hitScan w locationAngle hypotenuseSideLength (x # xs) =
     (case segmentAt w x of
        None \<Rightarrow> Inl TypeError
      | Some seg \<Rightarrow>
          if (case locationAngle of
                None \<Rightarrow> False
              | Some a \<Rightarrow> a \<ge> startAngle seg \<and> a \<le> endAngle seg)
             \<and> hypotenuseSideLength \<ge> innerRadius (Winwheel.options w)
             \<and> hypotenuseSideLength \<le> num (outerRadius (Winwheel.options w))
          then Inr (Some x)
          else hitScan w locationAngle hypotenuseSideLength xs)"

text \<open>
  The part of getSegmentNumberAt between the conversion of the point and the rotation:
  from the canvas location \<open>loc\<close> and the center, the \<open>locationAngle\<close> in whole degrees
  (\<open>None\<close> when it is \<open>NaN\<close>) and the distance \<open>hypotenuseSideLength\<close> from the center.
  \<open>Math.round\<close> is \<open>round\<close>.
\<close>

definition locationAngleOf :: "real \<Rightarrow> real \<Rightarrow> real \<times> real \<Rightarrow> real option \<times> real" where
  "locationAngleOf cx cy loc =
     (let (adjacentSideLength, leftRight) =
             (if fst loc > cx then (fst loc - cx, ''R'') else (cx - fst loc, ''L''));
          (oppositeSideLength, topBottom) =
             (if snd loc > cy then (snd loc - cy, ''B'') else (cy - snd loc, ''T''));
          result = triangleAngle oppositeSideLength adjacentSideLength;
          hypotenuseSideLength =
             sqrt (oppositeSideLength * oppositeSideLength
                   + adjacentSideLength * adjacentSideLength)
      in (map_option (\<lambda>r.
             if topBottom = ''T'' \<and> leftRight = ''R'' then real_of_int (round (90 - r))
             else if topBottom = ''B'' \<and> leftRight = ''R'' then real_of_int (round (r + 90))
             else if topBottom = ''B'' \<and> leftRight = ''L'' then real_of_int (round (90 - r + 180))
             else real_of_int (round (r + 270))) result,
          hypotenuseSideLength))"

text \<open>The adjustment of the angle to the rotation of the wheel, made when
  \<open>rotationAngle\<close> is not 0.\<close>

definition unrotate :: "Winwheel \<Rightarrow> real \<Rightarrow> real" where
  "unrotate w locationAngle =
     (if rotationAngle (Winwheel.options w) \<noteq> 0
      then (let a = locationAngle - getRotationPosition w
            in if a < 0 then 360 - \<bar>a\<bar> else a)
      else locationAngle)"

text \<open>The statements of getSegmentNumberAt that follow its first one,
  \<open>let loc = this.windowToCanvas(x, y)\<close>: what it returns for the canvas location \<open>loc\<close>. The
  result \<open>None\<close> is \<open>null\<close>.\<close>

definition segmentNumberAtLoc :: "Winwheel \<Rightarrow> real \<times> real \<Rightarrow> error + nat option" where
  "segmentNumberAtLoc w loc =
     (let (locationAngle, hypotenuseSideLength) =
             locationAngleOf (num (centerX (Winwheel.options w)))
               (num (centerY (Winwheel.options w))) loc
      in hitScan w (map_option (unrotate w) locationAngle) hypotenuseSideLength
           [1..<Suc (numSegments (Winwheel.options w))])"

text \<open>
  getSegmentNumberAt, for a click at the window position \<open>(x, y)\<close>. Without a canvas the
  call of \<open>getBoundingClientRect\<close> throws. When a coordinate of \<open>loc\<close> is not finite, the
  distance from the center is \<open>Infinity\<close> or \<open>NaN\<close> and fails the comparison with the outer
  radius, so the scan runs over all segments and matches none.
\<close>

definition getSegmentNumberAt :: "Winwheel \<Rightarrow> real \<Rightarrow> real \<Rightarrow> error + nat option" where
  "getSegmentNumberAt w x y =
     (case canvas w of
        None \<Rightarrow> Inl TypeError
      | Some c \<Rightarrow>
          (case windowToCanvas c x y of
             None \<Rightarrow> hitScan w None 0 [1..<Suc (numSegments (Winwheel.options w))]
           | Some loc \<Rightarrow> segmentNumberAtLoc w loc))"

text \<open>The canvas point at the angle \<open>theta\<close>, in degrees clockwise from 12 o'clock, and at
  the distance \<open>rho\<close> from the center of the wheel.\<close>

definition pointAt :: "Winwheel \<Rightarrow> real \<Rightarrow> real \<Rightarrow> real \<times> real" where
  "pointAt w theta rho =
     (num (centerX (Winwheel.options w)) + rho * sin (theta * pi / 180),
      num (centerY (Winwheel.options w)) - rho * cos (theta * pi / 180))"

text \<open>The point at the middle angle of a segment, turned with the wheel, and at the
  middle between the inner and the outer radius.\<close>

definition midPoint :: "Winwheel \<Rightarrow> Segment \<Rightarrow> real \<times> real" where
  "midPoint w seg =
     pointAt w ((startAngle seg + endAngle seg) / 2 + rotationAngle (Winwheel.options w))
       ((innerRadius (Winwheel.options w) + num (outerRadius (Winwheel.options w))) / 2)"

section \<open>Example wheels\<close>

text \<open>A segment with the default options but for its size, and the wheel with the default
  options that holds the given segments at the positions 1, 2, ...\<close>

definition sizedSegment :: "real option \<Rightarrow> real \<Rightarrow> real \<Rightarrow> Segment" where
  "sizedSegment sz a b =
     \<lparr> Segment.options = defaultSegmentOptions\<lparr>size_s := sz\<rparr>, startAngle = a, endAngle = b \<rparr>"

definition wheelOf :: "Segment list \<Rightarrow> Winwheel" where
  "wheelOf ss =
     \<lparr> Winwheel.options = defaultOptions\<lparr>numSegments := length ss,
                                          WinwheelOptions.textMargin := Some (20 / 1.7)\<rparr>,
       Winwheel.segments = None # map Some ss, canvas = None,
       Winwheel.animation = new_Animation None \<rparr>"

text \<open>The wheel turned to a rotation angle, as a write to \<open>options.rotationAngle\<close> leaves
  it.\<close>

definition rotatedTo :: "real \<Rightarrow> Winwheel \<Rightarrow> Winwheel" where
  "rotatedTo r w = w\<lparr>Winwheel.options := (Winwheel.options w)\<lparr>rotationAngle := r\<rparr>\<rparr>"

text \<open>A wheel on a canvas of 402 by 402, with the center and the outer radius that the
  constructor derives from it, and a segment with a text in black, stroked in red, with
  the text margin 10.\<close>

definition onCanvas :: "Winwheel \<Rightarrow> Winwheel" where
  "onCanvas w =
     w\<lparr> canvas := Some \<lparr> width = 402, height = 402, bbox_left = 0, bbox_top = 0,
                          bbox_width = 402, bbox_height = 402 \<rparr>,
        Winwheel.options := (Winwheel.options w)
          \<lparr> centerX := Some 201, centerY := Some 201, outerRadius := Some 200 \<rparr> \<rparr>"



definition textSegment :: "string \<Rightarrow> orientation \<Rightarrow> real \<Rightarrow> real \<Rightarrow> Segment" where
  "textSegment s ori a b =
     \<lparr> Segment.options = defaultSegmentOptions
         \<lparr> text_s := s, SegmentOptions.textOrientation := Some ori,
           SegmentOptions.textMargin := Some 10,
           SegmentOptions.textFillStyle := Some ''black'',
           SegmentOptions.textStrokeStyle := Some ''red'' \<rparr>,
       startAngle = a, endAngle = b \<rparr>"

section \<open>Theorems\<close>

subsection \<open>Segment boundaries\<close>

lemma usedArc_eq:
  "usedArc ss (a, k) =
     (a + sum_list (map (\<lambda>s. num (size_s (Segment.options s))) ss),
      k + length (filter (\<lambda>s. size_s (Segment.options s) \<noteq> None) ss))"
proof (induction ss arbitrary: a k)
  case Nil
  show ?case by simp
next
  case (Cons s ss)
  show ?case
    by (cases "size_s (Segment.options s)") (simp_all add: Cons.IH num_def)
qed

lemma setAngles_length [simp]: "length (setAngles d c ss) = length ss"
  by (induction ss arbitrary: c) simp_all

lemma setAngles_start: "ss \<noteq> [] \<Longrightarrow> startAngle (setAngles d c ss ! 0) = c"
  by (cases ss) simp_all

lemma setAngles_adjacent:
  "Suc i < length ss \<Longrightarrow>
     endAngle (setAngles d c ss ! i) = startAngle (setAngles d c ss ! Suc i)"
proof (induction ss arbitrary: c i)
  case Nil
  then show ?case by simp
next
  case (Cons s ss)
  show ?case
  proof (cases i)
    case 0
    with Cons.prems show ?thesis by (cases ss) simp_all
  next
    case (Suc j)
    with Cons.prems have "Suc j < length ss" by simp
    from Cons.IH [OF this] Suc show ?thesis by simp
  qed
qed

lemma setAngles_end:
  "i < length ss \<Longrightarrow>
     endAngle (setAngles d c ss ! i) = c + sum_list (map (arcOf d) (take (Suc i) ss))"
proof (induction ss arbitrary: c i)
  case Nil
  then show ?case by simp
next
  case (Cons s ss)
  show ?case
  proof (cases i)
    case 0
    then show ?thesis by simp
  next
    case (Suc j)
    with Cons.prems have "j < length ss" by simp
    from Cons.IH [OF this] Suc show ?thesis by simp
  qed
qed

lemma setAngles_width:
  "i < length ss \<Longrightarrow>
     endAngle (setAngles d c ss ! i) - startAngle (setAngles d c ss ! i) = arcOf d (ss ! i)"
proof (induction ss arbitrary: c i)
  case Nil
  then show ?case by simp
next
  case (Cons s ss)
  show ?case
  proof (cases i)
    case 0
    then show ?thesis by simp
  next
    case (Suc j)
    with Cons.prems have "j < length ss" by simp
    from Cons.IH [OF this] Suc show ?thesis by simp
  qed
qed

lemma setAngles_options:
  "i < length ss \<Longrightarrow> Segment.options (setAngles d c ss ! i) = Segment.options (ss ! i)"
proof (induction ss arbitrary: c i)
  case Nil
  then show ?case by simp
next
  case (Cons s ss)
  show ?case
  proof (cases i)
    case 0
    then show ?thesis by simp
  next
    case (Suc j)
    with Cons.prems have "j < length ss" by simp
    from Cons.IH [OF this] Suc show ?thesis by simp
  qed
qed

lemma arcOf_sum:
  "d = 0 \<or> \<not> list_ex (\<lambda>s. size_s (Segment.options s) = Some 0) ss \<Longrightarrow>
   sum_list (map (arcOf d) ss) =
     sum_list (map (\<lambda>s. num (size_s (Segment.options s))) ss)
       + d * real (length ss - length (filter (\<lambda>s. size_s (Segment.options s) \<noteq> None) ss))"
proof (induction ss)
  case Nil
  show ?case by simp
next
  case (Cons s ss)
  have le: "length (filter (\<lambda>s. size_s (Segment.options s) \<noteq> None) ss) \<le> length ss"
    by simp
  from Cons.prems have "d = 0 \<or> \<not> list_ex (\<lambda>s. size_s (Segment.options s) = Some 0) ss"
    by auto
  from Cons.IH [OF this] Cons.prems le show ?case
    by (cases "size_s (Segment.options s)")
       (auto simp: arcOf_def num_def Suc_diff_le algebra_simps)
qed

lemma present_nth:
  assumes "segmentsPresent w" and "1 \<le> i" and "i \<le> numSegments (Winwheel.options w)"
  shows "i < length (Winwheel.segments w)"
    and "Winwheel.segments w ! i \<noteq> None"
proof -
  from assms have "segmentAt w i \<noteq> None"
    by (auto simp: segmentsPresent_def list_ex_iff)
  then show "i < length (Winwheel.segments w)" and "Winwheel.segments w ! i \<noteq> None"
    by (auto simp: segmentAt_def array_get_def split: if_splits)
qed

lemma present_length:
  assumes "segmentsPresent w" and "1 \<le> numSegments (Winwheel.options w)"
  shows "numSegments (Winwheel.options w) < length (Winwheel.segments w)"
  using present_nth(1) [OF assms(1) assms(2)] by simp

lemma liveSegments_length:
  assumes "segmentsPresent w"
  shows "length (liveSegments w) = numSegments (Winwheel.options w)"
proof (cases "numSegments (Winwheel.options w)")
  case 0
  then show ?thesis by (simp add: liveSegments_def)
next
  case (Suc m)
  with present_length [OF assms] show ?thesis by (simp add: liveSegments_def)
qed

lemma updateSegmentSizes_Inr:
  assumes "segmentsPresent w"
    and "\<not> (360 - sizesSum w > 0 \<and> None \<notin> set (sizes w) \<and> Some 0 \<in> set (sizes w))"
  shows "updateSegmentSizes w =
     Inr (w\<lparr>Winwheel.segments :=
            take 1 (Winwheel.segments w)
              @ map Some (setAngles
                   (if 360 - sizesSum w > 0
                    then (360 - sizesSum w)
                      / real (numSegments (Winwheel.options w)
                          - length (filter (\<lambda>v. v \<noteq> None) (sizes w)))
                    else 0) 0 (liveSegments w))
              @ drop (Suc (numSegments (Winwheel.options w))) (Winwheel.segments w)\<rparr>)"
proof -
  let ?live = "liveSegments w"
  have used: "usedArc ?live (0, 0) = (sizesSum w, length (filter (\<lambda>v. v \<noteq> None) (sizes w)))"
    by (simp add: usedArc_eq sizesSum_def sizes_def comp_def filter_map)
  have len: "length (sizes w) = numSegments (Winwheel.options w)"
    using liveSegments_length [OF assms(1)] by (simp add: sizes_def)
  have allset: "numSegments (Winwheel.options w) = length (filter (\<lambda>v. v \<noteq> None) (sizes w))
      \<longleftrightarrow> None \<notin> set (sizes w)"
    using len by (metis (mono_tags, lifting) filter_True filter_id_conv length_filter_less nat_neq_iff)
  have zero: "list_ex (\<lambda>s. size_s (Segment.options s) = Some 0) ?live \<longleftrightarrow> Some 0 \<in> set (sizes w)"
    by (force simp: list_ex_iff sizes_def image_iff)
  from assms(1) have pres: "\<not> list_ex (\<lambda>x. array_get (Winwheel.segments w) x = None)
      [1..<Suc (numSegments (Winwheel.options w))]"
    by (simp add: segmentsPresent_def segmentAt_def)
  show ?thesis
    unfolding updateSegmentSizes_def Let_def
    using pres assms(2) by (simp only: used allset zero if_False if_True split simp_thms)
qed

lemma array_get_middle:
  assumes "length a = 1" and "1 \<le> i" and "i - 1 < length m"
  shows "array_get (a @ map Some (setAngles d c m) @ r) i = Some (setAngles d c m ! (i - 1))"
proof -
  have "i < length (a @ map Some (setAngles d c m) @ r)" using assms by simp
  moreover have "(a @ map Some (setAngles d c m) @ r) ! i = map Some (setAngles d c m) ! (i - 1)"
    using assms by (simp add: nth_append)
  ultimately show ?thesis using assms(3) by (simp add: array_get_def)
qed

lemma updated_segmentAt:
  assumes "segmentsPresent w" and "1 \<le> i" and "i \<le> numSegments (Winwheel.options w)"
  shows "segmentAt (w\<lparr>Winwheel.segments :=
            take 1 (Winwheel.segments w) @ map Some (setAngles d c (liveSegments w))
              @ drop (Suc (numSegments (Winwheel.options w))) (Winwheel.segments w)\<rparr>) i
         = Some (setAngles d c (liveSegments w) ! (i - 1))"
proof -
  have n: "1 \<le> numSegments (Winwheel.options w)" using assms by simp
  have l1: "length (take 1 (Winwheel.segments w)) = 1"
    using present_length [OF assms(1) n] by simp
  have l2: "length (liveSegments w) = numSegments (Winwheel.options w)"
    by (rule liveSegments_length [OF assms(1)])
  have "i - 1 < length (liveSegments w)" using assms(2,3) l2 by simp
  from array_get_middle [OF l1 assms(2) this, of d c] show ?thesis
    by (simp add: segmentAt_def)
qed

lemmas wheel_eval =
  updateSegmentSizes_def wheelOf_def sizedSegment_def liveSegments_def array_get_def
  defaultOptions_def defaultSegmentOptions_def arcOf_def Let_def

text \<open>
  Claim C1, as amended. Take a wheel whose segments 1 to numSegments all exist, with at
  least one segment, whose set sizes either sum to exactly 360, or sum to less than 360
  while at least one size is unset and no set size is 0. Then updateSegmentSizes returns a
  wheel in which segment 1 starts at 0, every segment ends where the next one starts, and
  the last segment ends at 360.
\<close>

theorem updateSegmentSizes_partition:
  assumes "segmentsPresent w" and "1 \<le> numSegments (Winwheel.options w)"
    and "sizesSum w = 360
         \<or> (sizesSum w < 360 \<and> None \<in> set (sizes w) \<and> Some 0 \<notin> set (sizes w))"
  shows "\<exists>w'. updateSegmentSizes w = Inr w'
     \<and> startAngleAt w' 1 = Some 0
     \<and> (\<forall>i. 1 \<le> i \<and> i < numSegments (Winwheel.options w)
            \<longrightarrow> endAngleAt w' i \<noteq> None \<and> endAngleAt w' i = startAngleAt w' (Suc i))
     \<and> endAngleAt w' (numSegments (Winwheel.options w)) = Some 360"
proof -
  let ?n = "numSegments (Winwheel.options w)"
  let ?k = "length (filter (\<lambda>v. v \<noteq> None) (sizes w))"
  let ?d = "if 360 - sizesSum w > 0 then (360 - sizesSum w) / real (?n - ?k) else 0"
  let ?live = "liveSegments w"
  let ?w' = "w\<lparr>Winwheel.segments :=
            take 1 (Winwheel.segments w) @ map Some (setAngles ?d 0 ?live)
              @ drop (Suc ?n) (Winwheel.segments w)\<rparr>"
  have len: "length ?live = ?n" by (rule liveSegments_length [OF assms(1)])
  have fin: "\<not> (360 - sizesSum w > 0 \<and> None \<notin> set (sizes w) \<and> Some 0 \<in> set (sizes w))"
    using assms(3) by auto
  have run: "updateSegmentSizes w = Inr ?w'"
    by (rule updateSegmentSizes_Inr [OF assms(1) fin])
  have at: "segmentAt ?w' i = Some (setAngles ?d 0 ?live ! (i - 1))" if "1 \<le> i" "i \<le> ?n" for i
    by (rule updated_segmentAt [OF assms(1) that])
  have ne: "?live \<noteq> []" using len assms(2) by auto
  have first: "startAngleAt ?w' 1 = Some 0"
    using at [of 1] assms(2) setAngles_start [OF ne, of ?d 0] by (simp add: startAngleAt_def)
  have adj: "endAngleAt ?w' i \<noteq> None \<and> endAngleAt ?w' i = startAngleAt ?w' (Suc i)"
    if "1 \<le> i" "i < ?n" for i
  proof -
    have "Suc (i - 1) < length ?live" using that len by simp
    from setAngles_adjacent [OF this, of ?d 0] that at [of i] at [of "Suc i"]
    show ?thesis by (simp add: endAngleAt_def startAngleAt_def)
  qed
  have filt: "length (filter (\<lambda>s. size_s (Segment.options s) \<noteq> None) ?live) = ?k"
    by (simp add: sizes_def filter_map comp_def)
  have kle: "?k \<le> ?n" using len filt by (metis length_filter_le)
  have zero: "list_ex (\<lambda>s. size_s (Segment.options s) = Some 0) ?live \<longleftrightarrow> Some 0 \<in> set (sizes w)"
    by (force simp: list_ex_iff sizes_def image_iff)
  have cond: "?d = 0 \<or> \<not> list_ex (\<lambda>s. size_s (Segment.options s) = Some 0) ?live"
    using assms(3) zero by auto
  have total: "sum_list (map (arcOf ?d) ?live) = sizesSum w + ?d * real (?n - ?k)"
    using arcOf_sum [OF cond] by (simp add: sizesSum_def sizes_def comp_def filt len)
  have "sizesSum w + ?d * real (?n - ?k) = 360"
  proof (cases "sizesSum w = 360")
    case True
    then show ?thesis by simp
  next
    case False
    with assms(3) have lt: "sizesSum w < 360" and unset: "None \<in> set (sizes w)" by auto
    have "?k < length (sizes w)"
      using unset by (simp add: length_filter_less)
    then have "?k < ?n" using len by (simp add: sizes_def)
    then have "real (?n - ?k) \<noteq> 0" by simp
    with lt show ?thesis by simp
  qed
  with total have tot: "sum_list (map (arcOf ?d) ?live) = 360" by simp
  have last: "endAngleAt ?w' ?n = Some 360"
  proof -
    have "?n - 1 < length ?live" using len assms(2) by simp
    from setAngles_end [OF this, of ?d 0] len assms(2) tot at [of ?n]
    show ?thesis by (simp add: endAngleAt_def)
  qed
  from run first adj last show ?thesis by blast
qed

theorem updateSegmentSizes_partition_witness:
  "segmentsPresent (wheelOf [sizedSegment (Some 90) 0 0, sizedSegment None 0 0])
   \<and> 1 \<le> numSegments (Winwheel.options (wheelOf [sizedSegment (Some 90) 0 0, sizedSegment None 0 0]))
   \<and> sizesSum (wheelOf [sizedSegment (Some 90) 0 0, sizedSegment None 0 0]) < 360
   \<and> None \<in> set (sizes (wheelOf [sizedSegment (Some 90) 0 0, sizedSegment None 0 0]))
   \<and> Some 0 \<notin> set (sizes (wheelOf [sizedSegment (Some 90) 0 0, sizedSegment None 0 0]))
   \<and> updateSegmentSizes (wheelOf [sizedSegment (Some 90) 0 0, sizedSegment None 0 0])
        = Inr (wheelOf [sizedSegment (Some 90) 0 90, sizedSegment None 90 360])
   \<and> startAngleAt (wheelOf [sizedSegment (Some 90) 0 90, sizedSegment None 90 360]) 1 = Some 0
   \<and> endAngleAt (wheelOf [sizedSegment (Some 90) 0 90, sizedSegment None 90 360]) 1
        = startAngleAt (wheelOf [sizedSegment (Some 90) 0 90, sizedSegment None 90 360]) 2
   \<and> endAngleAt (wheelOf [sizedSegment (Some 90) 0 90, sizedSegment None 90 360]) 2 = Some 360"
proof -
  let ?A = "wheelOf [sizedSegment (Some 90) 0 0, sizedSegment None 0 0]"
  let ?B = "wheelOf [sizedSegment (Some 90) 0 90, sizedSegment None 90 360]"
  have h1: "segmentsPresent ?A"
    by (simp add: segmentsPresent_def segmentAt_def wheel_eval)
  have n: "numSegments (Winwheel.options ?A) = 2"
    by (simp add: wheel_eval)
  have h2: "1 \<le> numSegments (Winwheel.options ?A)"
    by (simp add: n)
  have sz: "sizes ?A = [Some 90, None]"
    by (simp add: sizes_def wheel_eval)
  have h3: "sizesSum ?A = 360
      \<or> (sizesSum ?A < 360 \<and> None \<in> set (sizes ?A) \<and> Some 0 \<notin> set (sizes ?A))"
    by (simp add: sizesSum_def sz num_def)
  have run: "updateSegmentSizes ?A = Inr ?B"
    by (simp add: wheel_eval)
  from updateSegmentSizes_partition [OF h1 h2 h3] obtain w' where
      w': "updateSegmentSizes ?A = Inr w'"
      and r1: "startAngleAt w' 1 = Some 0"
      and r2: "\<forall>i. 1 \<le> i \<and> i < numSegments (Winwheel.options ?A)
                 \<longrightarrow> endAngleAt w' i \<noteq> None \<and> endAngleAt w' i = startAngleAt w' (Suc i)"
      and r3: "endAngleAt w' (numSegments (Winwheel.options ?A)) = Some 360"
    by blast
  from w' run have eq: "w' = ?B" by simp
  from r1 eq have r: "startAngleAt ?B 1 = Some 0" by simp
  from r2 [rule_format, of 1] n eq have adj: "endAngleAt ?B 1 = startAngleAt ?B 2"
    by (simp add: numeral_2_eq_2)
  from r3 n eq have r3': "endAngleAt ?B 2 = Some 360" by simp
  from h1 h2 h3 sz run r adj r3' show ?thesis
    by (simp add: sizesSum_def num_def)
qed

text \<open>Claim C1 as stated fails: two segments of size 100 each sum to at most 360, and the
  last segment ends at 200.\<close>

theorem updateSegmentSizes_partition_counterexample:
  "updateSegmentSizes (wheelOf [sizedSegment (Some 100) 0 0, sizedSegment (Some 100) 0 0])
     = Inr (wheelOf [sizedSegment (Some 100) 0 100, sizedSegment (Some 100) 100 200])
   \<and> sizesSum (wheelOf [sizedSegment (Some 100) 0 0, sizedSegment (Some 100) 0 0]) \<le> 360
   \<and> endAngleAt (wheelOf [sizedSegment (Some 100) 0 100, sizedSegment (Some 100) 100 200]) 2
       = Some 200
   \<and> endAngleAt (wheelOf [sizedSegment (Some 100) 0 100, sizedSegment (Some 100) 100 200]) 2
       \<noteq> Some 360"
  by (simp add: wheel_eval sizesSum_def sizes_def num_def endAngleAt_def segmentAt_def)

text \<open>
  Claim C7, as amended. When the set sizes of a wheel whose segments all exist sum to more
  than 360, updateSegmentSizes returns without correcting anything: the arc left is
  negative, so \<open>degreesEach\<close> stays 0, every segment is as wide as its size and an unset
  segment has width 0 (not a negative share), and the last segment ends at the sum of the
  sizes.
\<close>

theorem updateSegmentSizes_overflow:
  assumes "segmentsPresent w" and "sizesSum w > 360"
  shows "\<exists>w'. updateSegmentSizes w = Inr w'
     \<and> (\<forall>i. 1 \<le> i \<and> i \<le> numSegments (Winwheel.options w)
            \<longrightarrow> (\<exists>s. segmentAt w' i = Some s
                    \<and> endAngle s - startAngle s = num (sizes w ! (i - 1))))
     \<and> (1 \<le> numSegments (Winwheel.options w)
            \<longrightarrow> endAngleAt w' (numSegments (Winwheel.options w)) = Some (sizesSum w))"
proof -
  let ?n = "numSegments (Winwheel.options w)"
  let ?live = "liveSegments w"
  let ?w' = "w\<lparr>Winwheel.segments :=
            take 1 (Winwheel.segments w) @ map Some (setAngles 0 0 ?live)
              @ drop (Suc ?n) (Winwheel.segments w)\<rparr>"
  have len: "length ?live = ?n" by (rule liveSegments_length [OF assms(1)])
  have fin: "\<not> (360 - sizesSum w > 0 \<and> None \<notin> set (sizes w) \<and> Some 0 \<in> set (sizes w))"
    using assms(2) by simp
  have run: "updateSegmentSizes w = Inr ?w'"
    using updateSegmentSizes_Inr [OF assms(1) fin] assms(2) by simp
  have at: "segmentAt ?w' i = Some (setAngles 0 0 ?live ! (i - 1))" if "1 \<le> i" "i \<le> ?n" for i
    by (rule updated_segmentAt [OF assms(1) that])
  have arc0: "arcOf 0 s = num (size_s (Segment.options s))" for s
    by (simp add: arcOf_def num_def split: option.splits)
  have width: "\<exists>s. segmentAt ?w' i = Some s
      \<and> endAngle s - startAngle s = num (sizes w ! (i - 1))" if "1 \<le> i" "i \<le> ?n" for i
  proof -
    have lt: "i - 1 < length ?live" using that len by simp
    from setAngles_width [OF lt, of 0 0] lt at [OF that] show ?thesis
      by (simp add: arc0 sizes_def)
  qed
  have last: "endAngleAt ?w' ?n = Some (sizesSum w)" if "1 \<le> ?n"
  proof -
    have lt: "?n - 1 < length ?live" using len that by simp
    have "map (arcOf 0) ?live = map num (sizes w)"
      by (simp add: arc0 sizes_def)
    then have "sum_list (map (arcOf 0) ?live) = sizesSum w"
      by (simp only: sizesSum_def)
    with setAngles_end [OF lt, of 0 0] len that at [of ?n] show ?thesis
      by (simp add: endAngleAt_def)
  qed
  from run width last show ?thesis by blast
qed

theorem updateSegmentSizes_overflow_witness:
  "segmentsPresent (wheelOf [sizedSegment (Some 400) 0 0, sizedSegment None 0 0])
   \<and> sizesSum (wheelOf [sizedSegment (Some 400) 0 0, sizedSegment None 0 0]) > 360
   \<and> updateSegmentSizes (wheelOf [sizedSegment (Some 400) 0 0, sizedSegment None 0 0])
        = Inr (wheelOf [sizedSegment (Some 400) 0 400, sizedSegment None 400 400])
   \<and> endAngleAt (wheelOf [sizedSegment (Some 400) 0 400, sizedSegment None 400 400]) 2
        = Some (sizesSum (wheelOf [sizedSegment (Some 400) 0 0, sizedSegment None 0 0]))"
proof -
  let ?A = "wheelOf [sizedSegment (Some 400) 0 0, sizedSegment None 0 0]"
  let ?B = "wheelOf [sizedSegment (Some 400) 0 400, sizedSegment None 400 400]"
  have h1: "segmentsPresent ?A"
    by (simp add: segmentsPresent_def segmentAt_def wheel_eval)
  have h2: "sizesSum ?A > 360"
    by (simp add: sizesSum_def sizes_def num_def wheel_eval)
  have n: "numSegments (Winwheel.options ?A) = 2"
    by (simp add: wheel_eval)
  have run: "updateSegmentSizes ?A = Inr ?B"
    by (simp add: wheel_eval)
  from updateSegmentSizes_overflow [OF h1 h2] obtain w' where
      w': "updateSegmentSizes ?A = Inr w'"
      and r: "1 \<le> numSegments (Winwheel.options ?A)
                \<longrightarrow> endAngleAt w' (numSegments (Winwheel.options ?A)) = Some (sizesSum ?A)"
    by blast
  from w' run have eq: "w' = ?B" by simp
  from r n eq have "endAngleAt ?B 2 = Some (sizesSum ?A)" by simp
  with h1 h2 run show ?thesis by simp
qed

text \<open>Claim C7 as stated fails: with sizes 400 and unset, the unset segment gets the
  width 0, not the share \<open>(360 - 400) / 1 = - 40\<close> of the negative remainder.\<close>

theorem updateSegmentSizes_overflow_counterexample:
  "updateSegmentSizes (wheelOf [sizedSegment (Some 400) 0 0, sizedSegment None 0 0])
     = Inr (wheelOf [sizedSegment (Some 400) 0 400, sizedSegment None 400 400])
   \<and> startAngleAt (wheelOf [sizedSegment (Some 400) 0 400, sizedSegment None 400 400]) 2
       = Some 400
   \<and> endAngleAt (wheelOf [sizedSegment (Some 400) 0 400, sizedSegment None 400 400]) 2
       = Some 400
   \<and> (360 - sizesSum (wheelOf [sizedSegment (Some 400) 0 0, sizedSegment None 0 0])) / 1 = - 40"
  by (simp add: wheel_eval sizesSum_def sizes_def num_def startAngleAt_def endAngleAt_def
      segmentAt_def)

subsection \<open>Rotation\<close>

lemma floor_mod_bounds:
  fixes a :: real
  shows "0 \<le> a - 360 * of_int \<lfloor>a / 360\<rfloor>" and "a - 360 * of_int \<lfloor>a / 360\<rfloor> < 360"
proof -
  have "of_int \<lfloor>a / 360\<rfloor> \<le> a / 360" by (rule of_int_floor_le)
  then have "of_int \<lfloor>a / 360\<rfloor> * 360 \<le> a" by (simp only: pos_le_divide_eq)
  then show "0 \<le> a - 360 * of_int \<lfloor>a / 360\<rfloor>" by linarith
  have "a / 360 < of_int \<lfloor>a / 360\<rfloor> + 1" using floor_correct [of "a / 360"] by simp
  then have "a < (of_int \<lfloor>a / 360\<rfloor> + 1) * 360" by (simp only: pos_divide_less_eq)
  then show "a - 360 * of_int \<lfloor>a / 360\<rfloor> < 360" by linarith
qed

lemma ceiling_mod_bounds:
  fixes a :: real
  shows "- 360 < a - 360 * of_int \<lceil>a / 360\<rceil>" and "a - 360 * of_int \<lceil>a / 360\<rceil> \<le> 0"
proof -
  have "a / 360 \<le> of_int \<lceil>a / 360\<rceil>" by (rule le_of_int_ceiling)
  then have "a \<le> of_int \<lceil>a / 360\<rceil> * 360" by (simp only: pos_divide_le_eq)
  then show "a - 360 * of_int \<lceil>a / 360\<rceil> \<le> 0" by linarith
  have "of_int \<lceil>a / 360\<rceil> - 1 < a / 360" using ceiling_correct [of "a / 360"] by simp
  then have "(of_int \<lceil>a / 360\<rceil> - 1) * 360 < a" by (simp only: pos_less_divide_eq)
  then show "- 360 < a - 360 * of_int \<lceil>a / 360\<rceil>" by linarith
qed

lemma rotationPosition_range: "0 \<le> rotationPosition a \<and> rotationPosition a \<le> 360"
  using floor_mod_bounds [of a] ceiling_mod_bounds [of a]
  by (simp add: rotationPosition_def)

lemma rotationPosition_fixed: "0 \<le> r \<Longrightarrow> r \<le> 360 \<Longrightarrow> rotationPosition r = r"
  by (simp add: rotationPosition_def)

lemma rotationPosition_floor:
  assumes "\<forall>m::int. a \<noteq> 360 * of_int m"
  shows "rotationPosition a = a - 360 * of_int \<lfloor>a / 360\<rfloor>"
proof -
  have n0: "a \<noteq> 0" using assms [rule_format, of 0] by simp
  have n1: "a \<noteq> 360" using assms [rule_format, of 1] by simp
  have n2: "a \<noteq> - 360" using assms [rule_format, of "- 1"] by simp
  have nint: "a / 360 \<noteq> of_int \<lfloor>a / 360\<rfloor>"
  proof
    assume "a / 360 = of_int \<lfloor>a / 360\<rfloor>"
    then have "a = 360 * of_int \<lfloor>a / 360\<rfloor>" by simp
    with assms show False by blast
  qed
  consider "0 \<le> a" "a \<le> 360" | "a > 360" | "a < 0" "- 360 \<le> a" | "a < - 360"
    by linarith
  then show ?thesis
  proof cases
    case 1
    with n0 n1 have "0 < a" "a < 360" by simp_all
    then have "\<lfloor>a / 360\<rfloor> = 0" by (simp add: floor_eq_iff)
    with 1 show ?thesis by (simp add: rotationPosition_def)
  next
    case 2
    then show ?thesis by (simp add: rotationPosition_def)
  next
    case 3
    with n2 have "- 360 < a" "a < 0" by simp_all
    then have "\<lfloor>a / 360\<rfloor> = - 1" by (simp add: floor_eq_iff)
    with 3 show ?thesis by (simp add: rotationPosition_def)
  next
    case 4
    have "\<lceil>a / 360\<rceil> = \<lfloor>a / 360\<rfloor> + 1"
      using nint by (simp add: ceiling_altdef)
    with 4 show ?thesis by (simp add: rotationPosition_def algebra_simps)
  qed
qed

lemma not_multiple_shift:
  assumes "\<forall>m::int. a \<noteq> 360 * of_int m"
  shows "\<forall>m::int. a + 360 * of_int k \<noteq> 360 * of_int m"
proof (intro allI notI)
  fix m :: int
  assume "a + 360 * of_int k = 360 * of_int m"
  then have "a = 360 * of_int (m - k)" by (simp add: algebra_simps)
  with assms show False by blast
qed

lemma rotationPosition_periodic:
  assumes "\<forall>m::int. a \<noteq> 360 * of_int m"
  shows "rotationPosition (a + 360 * of_int k) = rotationPosition a"
proof -
  have "(a + 360 * of_int k) / 360 = a / 360 + of_int k" by simp
  then have "\<lfloor>(a + 360 * of_int k) / 360\<rfloor> = \<lfloor>a / 360 + of_int k\<rfloor>" by (simp only:)
  also have "\<dots> = \<lfloor>a / 360\<rfloor> + k" by simp
  finally have fl: "\<lfloor>(a + 360 * of_int k) / 360\<rfloor> = \<lfloor>a / 360\<rfloor> + k" .
  have "rotationPosition (a + 360 * of_int k)
      = a + 360 * of_int k - 360 * of_int \<lfloor>(a + 360 * of_int k) / 360\<rfloor>"
    by (rule rotationPosition_floor [OF not_multiple_shift [OF assms]])
  also have "\<dots> = a - 360 * of_int \<lfloor>a / 360\<rfloor>"
    by (simp only: fl of_int_add) (simp add: algebra_simps)
  also have "\<dots> = rotationPosition a"
    by (rule rotationPosition_floor [OF assms, symmetric])
  finally show ?thesis .
qed

lemma rotationPosition_multiple:
  "rotationPosition (360 * of_int m) = 0 \<or> rotationPosition (360 * of_int m) = 360"
proof -
  have "\<lfloor>(360 * real_of_int m) / 360\<rfloor> = m" "\<lceil>(360 * real_of_int m) / 360\<rceil> = m" by simp_all
  then show ?thesis by (auto simp: rotationPosition_def)
qed

text \<open>
  Claim C3, as amended. The value that getRotationPosition returns for the rotation angle
  \<open>a\<close> lies in the closed interval from 0 to 360, and normalizing it again returns it
  unchanged. When \<open>a\<close> is not a whole multiple of 360 the value is below 360 and is the
  same for \<open>a + 360 * k\<close>, for every integer \<open>k\<close>. A whole multiple of 360 is mapped to 0 or
  to 360.
\<close>

theorem getRotationPosition_normalizes:
  "0 \<le> rotationPosition a \<and> rotationPosition a \<le> 360
   \<and> rotationPosition (rotationPosition a) = rotationPosition a
   \<and> ((\<forall>m::int. a \<noteq> 360 * of_int m)
        \<longrightarrow> rotationPosition a < 360
          \<and> rotationPosition (a + 360 * of_int k) = rotationPosition a)
   \<and> ((\<exists>m::int. a = 360 * of_int m)
        \<longrightarrow> rotationPosition a = 0 \<or> rotationPosition a = 360)"
proof -
  have r: "0 \<le> rotationPosition a \<and> rotationPosition a \<le> 360"
    by (rule rotationPosition_range)
  then have i: "rotationPosition (rotationPosition a) = rotationPosition a"
    by (simp add: rotationPosition_fixed)
  have p: "rotationPosition a < 360 \<and> rotationPosition (a + 360 * of_int k) = rotationPosition a"
    if "\<forall>m::int. a \<noteq> 360 * of_int m"
    using rotationPosition_periodic [OF that] floor_mod_bounds(2) [of a]
    by (simp add: rotationPosition_floor [OF that])
  have m: "rotationPosition a = 0 \<or> rotationPosition a = 360" if "\<exists>m::int. a = 360 * of_int m"
    using that rotationPosition_multiple by blast
  from r i p m show ?thesis by blast
qed

theorem getRotationPosition_normalizes_witness:
  "(\<forall>m::int. (- 400 :: real) \<noteq> 360 * of_int m)
   \<and> rotationPosition (- 400) = 320
   \<and> rotationPosition (- 400 + 360 * of_int 3) = rotationPosition (- 400)
   \<and> (\<exists>m::int. (720 :: real) = 360 * of_int m) \<and> rotationPosition 720 = 0"
proof -
  have h: "\<forall>m::int. (- 400 :: real) \<noteq> 360 * of_int m"
  proof (intro allI notI)
    fix m :: int
    assume "(- 400 :: real) = 360 * of_int m"
    then have "real_of_int (- 400) = real_of_int (360 * m)" by simp
    then have "(- 400 :: int) = 360 * m" by (simp only: of_int_eq_iff)
    then show False by presburger
  qed
  have v: "rotationPosition (- 400) = 320"
    by (simp add: rotationPosition_def)
  have e: "\<exists>m::int. (720 :: real) = 360 * of_int m"
    by (rule exI [of _ 2]) simp
  have z: "rotationPosition 720 = 0"
    by (simp add: rotationPosition_def)
  from getRotationPosition_normalizes [of "- 400" 3] h
  have "rotationPosition (- 400 + 360 * of_int 3) = rotationPosition (- 400)" by blast
  with h v e z show ?thesis by blast
qed

text \<open>Claim C3 as stated fails: 360 and \<open>- 720\<close> are mapped to 360, which is outside
  \<open>[0, 360)\<close>, and 0 and \<open>0 + 360\<close> are mapped to different values.\<close>

theorem getRotationPosition_normalizes_counterexample:
  "rotationPosition 360 = 360 \<and> \<not> rotationPosition 360 < 360
   \<and> rotationPosition (- 720) = 360
   \<and> rotationPosition 0 = 0 \<and> rotationPosition (0 + 360 * of_int 1) \<noteq> rotationPosition 0"
  by (simp add: rotationPosition_def)

subsection \<open>Animation target, deletion and construction\<close>




text \<open>
  Claim C8. When the wheel has exactly one segment, deleteSegment returns normally for
  every position, given or not, and leaves the wheel (the segments array, numSegments
  and every boundary) unchanged.
\<close>

theorem deleteSegment_last_is_noop:
  "numSegments (Winwheel.options w) = 1 \<Longrightarrow> deleteSegment position w = Inr w"
  by (simp add: deleteSegment_def)

theorem deleteSegment_last_is_noop_witness:
  "numSegments (Winwheel.options (wheelOf [sizedSegment None 0 360])) = 1
   \<and> deleteSegment (Some 1) (wheelOf [sizedSegment None 0 360])
       = Inr (wheelOf [sizedSegment None 0 360])"
proof -
  have h: "numSegments (Winwheel.options (wheelOf [sizedSegment None 0 360])) = 1"
    by (simp add: wheelOf_def)
  from deleteSegment_last_is_noop [OF h, of "Some 1"] h show ?thesis by simp
qed

lemma populate_from:
  "length segs = i \<Longrightarrow>
   populate given segs i k = segs @ replicate k (Some (new_Segment None))"
proof (induction k arbitrary: segs i)
  case 0
  show ?case by simp
next
  case (Suc k)
  let ?segs1 = "if i - 1 < length given
                then array_set segs i (Some (new_Segment (Some (given ! (i - 1)))))
                else segs"
  have s2: "array_set ?segs1 i (Some (new_Segment None)) = segs @ [Some (new_Segment None)]"
    unfolding Suc.prems [symmetric] by (simp add: array_set_def)
  have "populate given segs i (Suc k)
      = populate given (segs @ [Some (new_Segment None)]) (Suc i) k"
    by (simp only: populate.simps Let_def s2)
  also have "\<dots> = (segs @ [Some (new_Segment None)]) @ replicate k (Some (new_Segment None))"
    by (rule Suc.IH) (simp add: Suc.prems)
  finally show ?case by (simp add: replicate_app_Cons_same)
qed

lemma populate_all:
  "populate given [] 1 n = (if n = 0 then [] else None # replicate n (Some (new_Segment None)))"
proof (cases n)
  case 0
  then show ?thesis by simp
next
  case (Suc k)
  let ?segs1 = "if (1::nat) - 1 < length given
                then array_set [] 1 (Some (new_Segment (Some (given ! (1 - 1)))))
                else []"
  have s2: "array_set ?segs1 1 (Some (new_Segment None)) = [None, Some (new_Segment None)]"
    by (simp add: array_set_def)
  have "populate given [] 1 (Suc k) = populate given [None, Some (new_Segment None)] 2 k"
    by (simp only: populate.simps Let_def s2) (simp add: numeral_2_eq_2)
  also have "\<dots> = [None, Some (new_Segment None)] @ replicate k (Some (new_Segment None))"
    by (rule populate_from) simp
  finally show ?thesis using Suc by simp
qed

lemma populated_present:
  assumes "Winwheel.segments w = populate given [] 1 (numSegments (Winwheel.options w))"
  shows "segmentsPresent w"
    and "liveSegments w = replicate (numSegments (Winwheel.options w)) (new_Segment None)"
proof -
  let ?n = "numSegments (Winwheel.options w)"
  have segs: "Winwheel.segments w
      = (if ?n = 0 then [] else None # replicate ?n (Some (new_Segment None)))"
    by (simp only: assms populate_all)
  show "segmentsPresent w"
    by (auto simp: segmentsPresent_def segmentAt_def array_get_def list_ex_iff segs)
  show "liveSegments w = replicate ?n (new_Segment None)"
    by (simp add: liveSegments_def segs)
qed

text \<open>
  Claim C10. Whatever \<open>options.segments\<close> holds, the constructor returns a wheel in which
  every segment 1 to numSegments carries exactly the default segment options: the
  segment made from the given options is replaced at once by \<open>new Segment()\<close>.
\<close>

theorem constructor_ignores_segment_options:
  "\<exists>w. constructor opts cv = Inr w
     \<and> numSegments (Winwheel.options w) = numSegments opts
     \<and> (\<forall>i. 1 \<le> i \<and> i \<le> numSegments opts
           \<longrightarrow> (\<exists>s. segmentAt w i = Some s \<and> Segment.options s = defaultSegmentOptions))"
proof -
  define opts1 where "opts1 = (case cv of
            None \<Rightarrow> opts
          | Some c \<Rightarrow>
              opts\<lparr> centerX := (case centerX opts of None \<Rightarrow> Some (width c / 2) | Some x \<Rightarrow> Some x),
                    centerY := (case centerY opts of None \<Rightarrow> Some (height c / 2) | Some y \<Rightarrow> Some y),
                    outerRadius := (case outerRadius opts of
                        None \<Rightarrow> (if width c < height c
                                 then Some (width c / 2 - WinwheelOptions.lineWidth opts)
                                 else Some (height c / 2 - WinwheelOptions.lineWidth opts))
                      | Some r \<Rightarrow> Some r) \<rparr>)"
  define w0 where "w0 = \<lparr> Winwheel.options = opts1,
      Winwheel.segments = populate (WinwheelOptions.segments opts1) [] 1 (numSegments opts1),
      canvas = cv, Winwheel.animation = new_Animation (WinwheelOptions.animation opts1) \<rparr>"
  have n1: "numSegments opts1 = numSegments opts"
    by (simp add: opts1_def split: option.splits)
  have n0: "numSegments (Winwheel.options w0) = numSegments opts"
    by (simp add: w0_def n1)
  have segs0: "Winwheel.segments w0
      = populate (WinwheelOptions.segments opts1) [] 1 (numSegments (Winwheel.options w0))"
    by (simp add: w0_def)
  note pp = populated_present [OF segs0]
  have sz: "sizes w0 = replicate (numSegments opts) None"
    by (simp add: sizes_def pp(2) n0 new_Segment_def defaultSegmentOptions_def)
  have fin: "\<not> (360 - sizesSum w0 > 0 \<and> None \<notin> set (sizes w0) \<and> Some 0 \<in> set (sizes w0))"
    by (simp add: sz)
  define d where "d = (if 360 - sizesSum w0 > 0
                    then (360 - sizesSum w0)
                      / real (numSegments (Winwheel.options w0)
                          - length (filter (\<lambda>v. v \<noteq> None) (sizes w0)))
                    else 0)"
  define w1 where "w1 = w0\<lparr>Winwheel.segments :=
            take 1 (Winwheel.segments w0) @ map Some (setAngles d 0 (liveSegments w0))
              @ drop (Suc (numSegments (Winwheel.options w0))) (Winwheel.segments w0)\<rparr>"
  have run: "updateSegmentSizes w0 = Inr w1"
    unfolding w1_def d_def by (rule updateSegmentSizes_Inr [OF pp(1) fin])
  define w where "w = w1\<lparr>Winwheel.options := (Winwheel.options w1)
                    \<lparr>WinwheelOptions.textMargin :=
                       (case WinwheelOptions.textMargin opts1 of
                          None \<Rightarrow> Some (WinwheelOptions.textFontSize opts1 / 1.7)
                        | Some m \<Rightarrow> Some m)\<rparr>\<rparr>"
  have c: "constructor opts cv = Inr w"
    unfolding constructor_def opts1_def [symmetric] Let_def w0_def [symmetric]
    by (simp add: run w_def)
  have n: "numSegments (Winwheel.options w) = numSegments opts"
    by (simp add: w_def w1_def n0)
  have at: "\<exists>s. segmentAt w i = Some s \<and> Segment.options s = defaultSegmentOptions"
    if "1 \<le> i" "i \<le> numSegments opts" for i
  proof -
    have i: "1 \<le> i" "i \<le> numSegments (Winwheel.options w0)" using that n0 by simp_all
    have lt: "i - 1 < length (liveSegments w0)" using that by (simp add: pp(2) n0)
    have "segmentAt w i = segmentAt w1 i" by (simp add: w_def segmentAt_def)
    also have "\<dots> = Some (setAngles d 0 (liveSegments w0) ! (i - 1))"
      unfolding w1_def by (rule updated_segmentAt [OF pp(1) i])
    finally have a: "segmentAt w i = Some (setAngles d 0 (liveSegments w0) ! (i - 1))" .
    have "Segment.options (setAngles d 0 (liveSegments w0) ! (i - 1))
        = Segment.options (liveSegments w0 ! (i - 1))"
      by (rule setAngles_options [OF lt])
    also have "\<dots> = defaultSegmentOptions"
      using that by (simp add: pp(2) n0 new_Segment_def)
    finally show ?thesis using a by simp
  qed
  from c n at show ?thesis by blast
qed

theorem constructor_ignores_segment_options_witness:
  "constructor
     (defaultOptions\<lparr>numSegments := 2,
        WinwheelOptions.segments :=
          [defaultSegmentOptions\<lparr>size_s := Some 100, text_s := ''A''\<rparr>,
           defaultSegmentOptions\<lparr>size_s := Some 260, text_s := ''B''\<rparr>]\<rparr>) None
    = Inr \<lparr> Winwheel.options =
              defaultOptions\<lparr>numSegments := 2,
                WinwheelOptions.segments :=
                  [defaultSegmentOptions\<lparr>size_s := Some 100, text_s := ''A''\<rparr>,
                   defaultSegmentOptions\<lparr>size_s := Some 260, text_s := ''B''\<rparr>],
                WinwheelOptions.textMargin := Some (20 / 1.7)\<rparr>,
            Winwheel.segments =
              [None, Some (sizedSegment None 0 180), Some (sizedSegment None 180 360)],
            canvas = None, Winwheel.animation = new_Animation None \<rparr>
   \<and> Segment.options (sizedSegment None 0 180) = defaultSegmentOptions
   \<and> Segment.options (sizedSegment None 180 360) = defaultSegmentOptions"
proof -
  let ?opts = "defaultOptions\<lparr>numSegments := 2,
        WinwheelOptions.segments :=
          [defaultSegmentOptions\<lparr>size_s := Some 100, text_s := ''A''\<rparr>,
           defaultSegmentOptions\<lparr>size_s := Some 260, text_s := ''B''\<rparr>]\<rparr>"
  let ?W = "\<lparr> Winwheel.options = ?opts\<lparr>WinwheelOptions.textMargin := Some (20 / 1.7)\<rparr>,
            Winwheel.segments =
              [None, Some (sizedSegment None 0 180), Some (sizedSegment None 180 360)],
            canvas = None, Winwheel.animation = new_Animation None \<rparr>"
  have run: "constructor ?opts None = Inr ?W"
    by (simp add: constructor_def numeral_2_eq_2 array_set_def new_Segment_def wheel_eval)
  from constructor_ignores_segment_options [of ?opts None] obtain w where
      w: "constructor ?opts None = Inr w"
      and a: "\<forall>i. 1 \<le> i \<and> i \<le> numSegments ?opts
           \<longrightarrow> (\<exists>s. segmentAt w i = Some s \<and> Segment.options s = defaultSegmentOptions)"
    by blast
  from w run have eq: "w = ?W" by simp
  have s1: "segmentAt ?W 1 = Some (sizedSegment None 0 180)"
    and s2: "segmentAt ?W 2 = Some (sizedSegment None 180 360)"
    by (simp_all add: segmentAt_def array_get_def)
  have n: "numSegments ?opts = 2" by simp
  from a [rule_format, of 1] eq s1 n
  have o1: "Segment.options (sizedSegment None 0 180) = defaultSegmentOptions" by simp
  from a [rule_format, of 2] eq s2 n
  have o2: "Segment.options (sizedSegment None 180 360) = defaultSegmentOptions" by simp
  from run o1 o2 show ?thesis by simp
qed

subsection \<open>Adding a segment and the indicated segment\<close>

text \<open>
  Claim C5 fails on the code. On a wheel whose array has no entry after position
  numSegments, which is every wheel that the constructor, addSegment and deleteSegment
  produce, addSegment with a position up to numSegments throws a TypeError: the first
  round of the shifting loop assigns to \<open>segments[numSegments + 1].options\<close>, and that entry
  is undefined.
\<close>

theorem addSegment_at_position_throws:
  assumes "array_get (Winwheel.segments w) (Suc (numSegments (Winwheel.options w))) = None"
    and "p \<le> numSegments (Winwheel.options w)"
  shows "addSegment opts (Some p) w = Inl TypeError"
proof -
  have "shiftUp (Winwheel.segments w) (Suc (numSegments (Winwheel.options w))) p = Inl TypeError"
    using assms by (subst shiftUp.simps) simp
  then show ?thesis by (simp add: addSegment_def Let_def)
qed

theorem addSegment_at_position_throws_witness:
  "array_get (Winwheel.segments (wheelOf [sizedSegment None 0 180, sizedSegment None 180 360]))
      (Suc (numSegments (Winwheel.options
         (wheelOf [sizedSegment None 0 180, sizedSegment None 180 360])))) = None
   \<and> 1 \<le> numSegments (Winwheel.options
         (wheelOf [sizedSegment None 0 180, sizedSegment None 180 360]))
   \<and> addSegment (defaultSegmentOptions\<lparr>text_s := ''A''\<rparr>) (Some 1)
        (wheelOf [sizedSegment None 0 180, sizedSegment None 180 360]) = Inl TypeError"
proof -
  let ?W = "wheelOf [sizedSegment None 0 180, sizedSegment None 180 360]"
  have h1: "array_get (Winwheel.segments ?W) (Suc (numSegments (Winwheel.options ?W))) = None"
    by (simp add: wheelOf_def array_get_def)
  have h2: "1 \<le> numSegments (Winwheel.options ?W)"
    by (simp add: wheelOf_def)
  from addSegment_at_position_throws [OF h1 h2] h1 h2 show ?thesis by simp
qed

lemma indicatedScan_never_matches:
  "indicatedScan rel x segs = Inr 0 \<or> indicatedScan rel x segs = Inl TypeError"
proof (induction segs arbitrary: x)
  case Nil
  show ?case by simp
next
  case (Cons s segs)
  show ?case
  proof (cases s)
    case None
    then show ?thesis by simp
  next
    case (Some seg)
    with Cons.IH [of "Suc x"] show ?thesis
      by (simp add: optionsProp_def js_ge_def)
  qed
qed

lemma getIndicatedSegmentNumber_never_matches:
  "getIndicatedSegmentNumber w = Inr 0 \<or> getIndicatedSegmentNumber w = Inl TypeError"
  by (simp add: getIndicatedSegmentNumber_def Let_def indicatedScan_never_matches)

text \<open>
  Claim C2 fails on the code. On the wheel of four equal segments, turned to the angle
  2070 that a spinToStop with 5 spins and the stop angle 90 targets, the pointer angle
  minus the rotation position is \<open>- 270\<close>, which wraps to 90, an angle inside segment 1
  (from 0 to 90); yet
  getIndicatedSegmentNumber returns 0, the value for no segment. The scan compares with
  \<open>options["startAngle"]\<close> and \<open>options["endAngle"]\<close>, which are undefined.
\<close>

theorem getIndicatedSegmentNumber_after_spin:
  "getIndicatedSegmentNumber (rotatedTo 2070
      (wheelOf [sizedSegment None 0 90, sizedSegment None 90 180,
                sizedSegment None 180 270, sizedSegment None 270 360])) = Inr 0
   \<and> pointerAngle (Winwheel.options (rotatedTo 2070
      (wheelOf [sizedSegment None 0 90, sizedSegment None 90 180,
                sizedSegment None 180 270, sizedSegment None 270 360])))
     - getRotationPosition (rotatedTo 2070
      (wheelOf [sizedSegment None 0 90, sizedSegment None 90 180,
                sizedSegment None 180 270, sizedSegment None 270 360])) = - 270
   \<and> startAngleAt (rotatedTo 2070
      (wheelOf [sizedSegment None 0 90, sizedSegment None 90 180,
                sizedSegment None 180 270, sizedSegment None 270 360])) 1 = Some 0
   \<and> endAngleAt (rotatedTo 2070
      (wheelOf [sizedSegment None 0 90, sizedSegment None 90 180,
                sizedSegment None 180 270, sizedSegment None 270 360])) 1 = Some 90"
  by (simp add: getIndicatedSegmentNumber_def getRotationPosition_def rotationPosition_def
      rotatedTo_def wheelOf_def defaultOptions_def optionsProp_def js_ge_def
      startAngleAt_def endAngleAt_def segmentAt_def array_get_def sizedSegment_def)

subsection \<open>Order of fill and stroke in the segment text\<close>

lemma textCalls_append: "textCalls (a @ b) = textCalls a @ textCalls b"
  by (simp add: textCalls_def)

lemma fillFirst_append: "fillFirst a \<Longrightarrow> fillFirst b \<Longrightarrow> fillFirst (a @ b)"
  by (induction a rule: fillFirst.induct) simp_all

lemma strokeFirst_append: "strokeFirst a \<Longrightarrow> strokeFirst b \<Longrightarrow> strokeFirst (a @ b)"
  by (induction a rule: strokeFirst.induct) simp_all

lemma textCalls_fillThenStroke:
  assumes "truthy (TextSettings.fillStyle ts)" and "truthy (TextSettings.strokeStyle ts)"
  shows "textCalls (fillThenStroke ts s x y) = [FillText s x y, StrokeText s x y]"
  using assms by (simp add: textCalls_def fillThenStroke_def)

lemma textCalls_strokeThenFill:
  assumes "truthy (TextSettings.fillStyle ts)" and "truthy (TextSettings.strokeStyle ts)"
  shows "textCalls (strokeThenFill ts s x y) = [StrokeText s x y, FillText s x y]"
  using assms by (simp add: textCalls_def strokeThenFill_def)

lemma textCalls_rotateAbout [simp]: "textCalls (rotateAbout cx cy a) = []"
  by (simp add: textCalls_def rotateAbout_def)

lemma textCalls_Save [simp]: "textCalls (Save # cs) = textCalls cs"
  by (simp add: textCalls_def)

lemma textCalls_Restore [simp]: "textCalls (Restore # cs) = textCalls cs"
  by (simp add: textCalls_def)

lemma textCalls_Nil [simp]: "textCalls [] = []"
  by (simp add: textCalls_def)

lemma verticalChars_fillFirst:
  assumes "truthy (TextSettings.fillStyle ts)" and "truthy (TextSettings.strokeStyle ts)"
  shows "fillFirst (textCalls (verticalChars ts x yPos step line))"
  by (induction line arbitrary: yPos)
     (simp_all add: textCalls_append textCalls_fillThenStroke [OF assms])

lemma curvedChars_strokeFirst:
  assumes "truthy (TextSettings.fillStyle ts)" and "truthy (TextSettings.strokeStyle ts)"
  shows "strokeFirst (textCalls (curvedChars ts cx cy y drawAngle anglePerChar chars))"
  by (induction chars arbitrary: drawAngle)
     (simp_all add: textCalls_append textCalls_strokeThenFill [OF assms])

lemma horizontalLine_fillFirst:
  assumes "truthy (TextSettings.fillStyle ts)" and "truthy (TextSettings.strokeStyle ts)"
  shows "fillFirst (textCalls (horizontalLine w seg ts lineOffset line))"
  by (simp add: horizontalLine_def Let_def textCalls_append textCalls_fillThenStroke [OF assms]
      split: textDir.split alignment.split)

lemma verticalLine_fillFirst:
  assumes "truthy (TextSettings.fillStyle ts)" and "truthy (TextSettings.strokeStyle ts)"
  shows "fillFirst (textCalls (verticalLine w seg ts lineOffset line))"
  by (simp add: verticalLine_def Let_def textCalls_append verticalChars_fillFirst [OF assms]
      split: textDir.split alignment.split)

lemma curvedLine_strokeFirst:
  assumes "truthy (TextSettings.fillStyle ts)" and "truthy (TextSettings.strokeStyle ts)"
  shows "strokeFirst (textCalls (curvedLine w seg ts lineOffset line))"
  by (simp add: curvedLine_def Let_def curvedChars_strokeFirst [OF assms]
      del: curvedChars.simps split: textDir.split prod.split)

lemma drawLines_fillFirst:
  assumes "truthy (TextSettings.fillStyle ts)" and "truthy (TextSettings.strokeStyle ts)"
    and "orientation ts \<noteq> Curved"
  shows "fillFirst (textCalls (drawLines w seg ts lineOffset lines))"
proof (induction lines arbitrary: lineOffset)
  case Nil
  show ?case by simp
next
  case (Cons line rest)
  have "fillFirst (textCalls (case orientation ts of
        Horizontal \<Rightarrow> horizontalLine w seg ts lineOffset line
      | Vertical \<Rightarrow> verticalLine w seg ts lineOffset line
      | Curved \<Rightarrow> curvedLine w seg ts lineOffset line))"
    using assms(3) horizontalLine_fillFirst [OF assms(1,2)] verticalLine_fillFirst [OF assms(1,2)]
    by (cases "orientation ts") simp_all
  with Cons.IH show ?case
    by (simp add: textCalls_append fillFirst_append)
qed

lemma drawLines_strokeFirst:
  assumes "truthy (TextSettings.fillStyle ts)" and "truthy (TextSettings.strokeStyle ts)"
    and "orientation ts = Curved"
  shows "strokeFirst (textCalls (drawLines w seg ts lineOffset lines))"
proof (induction lines arbitrary: lineOffset)
  case Nil
  show ?case by simp
next
  case (Cons line rest)
  with assms(3) curvedLine_strokeFirst [OF assms(1,2)] show ?case
    by (simp add: textCalls_append strokeFirst_append)
qed

text \<open>
  Claim C9, as amended. For a segment whose resolved text fill style and text stroke
  style are both set, the text calls that drawSegmentText makes for it come in pairs on
  the same text at the same place: for curved text, in either direction, the stroke is
  made before the fill; for vertical text and for horizontal text the fill is made before
  the stroke. Outer-aligned horizontal text in normal direction is left out of the
  statement.
\<close>

theorem drawSegmentText_order:
  assumes "truthy (TextSettings.fillStyle (resolveText w seg))"
    and "truthy (TextSettings.strokeStyle (resolveText w seg))"
  shows "(orientation (resolveText w seg) = Curved
            \<longrightarrow> strokeFirst (textCalls (segmentText w seg)))
       \<and> (orientation (resolveText w seg) \<noteq> Curved
          \<and> \<not> (orientation (resolveText w seg) = Horizontal
                \<and> alignment (resolveText w seg) = Outer
                \<and> TextSettings.direction (resolveText w seg) = Normal)
            \<longrightarrow> fillFirst (textCalls (segmentText w seg)))"
  using drawLines_strokeFirst [OF assms] drawLines_fillFirst [OF assms]
  by (simp add: segmentText_def Let_def textCalls_append)

text \<open>For outer-aligned horizontal text in normal direction the source announces in a
  comment that the stroke comes first; the calls it makes are fill first, as for every
  other horizontal text.\<close>

lemma horizontal_text_fill_first:
  assumes "truthy (TextSettings.fillStyle (resolveText w seg))"
    and "truthy (TextSettings.strokeStyle (resolveText w seg))"
    and "orientation (resolveText w seg) = Horizontal"
  shows "fillFirst (textCalls (segmentText w seg))"
  using drawLines_fillFirst [OF assms(1,2)] assms(3)
  by (simp add: segmentText_def Let_def textCalls_append)

lemmas text_eval =
  segmentText_def resolveText_def horizontalLine_def verticalLine_def
  curvedLine_def curvedAngles_def rotateAbout_def fillThenStroke_def strokeThenFill_def
  textCalls_def truthy_def num_def onCanvas_def textSegment_def wheelOf_def
  defaultOptions_def defaultSegmentOptions_def Let_def

theorem drawSegmentText_order_witness:
  "truthy (TextSettings.fillStyle (resolveText
       (onCanvas (wheelOf [textSegment ''AB'' Vertical 0 360])) (textSegment ''AB'' Vertical 0 360)))
   \<and> truthy (TextSettings.strokeStyle (resolveText
       (onCanvas (wheelOf [textSegment ''AB'' Vertical 0 360])) (textSegment ''AB'' Vertical 0 360)))
   \<and> orientation (resolveText
       (onCanvas (wheelOf [textSegment ''AB'' Vertical 0 360])) (textSegment ''AB'' Vertical 0 360))
       = Vertical
   \<and> fillFirst (textCalls (segmentText
       (onCanvas (wheelOf [textSegment ''AB'' Vertical 0 360])) (textSegment ''AB'' Vertical 0 360)))
   \<and> length (textCalls (segmentText
       (onCanvas (wheelOf [textSegment ''AB'' Vertical 0 360])) (textSegment ''AB'' Vertical 0 360)))
       = 4
   \<and> truthy (TextSettings.fillStyle (resolveText
       (onCanvas (wheelOf [textSegment ''A'' Curved 0 360])) (textSegment ''A'' Curved 0 360)))
   \<and> truthy (TextSettings.strokeStyle (resolveText
       (onCanvas (wheelOf [textSegment ''A'' Curved 0 360])) (textSegment ''A'' Curved 0 360)))
   \<and> orientation (resolveText
       (onCanvas (wheelOf [textSegment ''A'' Curved 0 360])) (textSegment ''A'' Curved 0 360))
       = Curved
   \<and> strokeFirst (textCalls (segmentText
       (onCanvas (wheelOf [textSegment ''A'' Curved 0 360])) (textSegment ''A'' Curved 0 360)))"
proof -
  let ?W1 = "onCanvas (wheelOf [textSegment ''AB'' Vertical 0 360])"
  let ?S1 = "textSegment ''AB'' Vertical 0 360"
  let ?W2 = "onCanvas (wheelOf [textSegment ''A'' Curved 0 360])"
  let ?S2 = "textSegment ''A'' Curved 0 360"
  have f1: "truthy (TextSettings.fillStyle (resolveText ?W1 ?S1))"
    and s1: "truthy (TextSettings.strokeStyle (resolveText ?W1 ?S1))"
    and o1: "orientation (resolveText ?W1 ?S1) = Vertical"
    by (simp_all add: resolveText_def truthy_def textSegment_def defaultSegmentOptions_def Let_def)
  have f2: "truthy (TextSettings.fillStyle (resolveText ?W2 ?S2))"
    and s2: "truthy (TextSettings.strokeStyle (resolveText ?W2 ?S2))"
    and o2: "orientation (resolveText ?W2 ?S2) = Curved"
    by (simp_all add: resolveText_def truthy_def textSegment_def defaultSegmentOptions_def Let_def)
  have n: "length (textCalls (segmentText ?W1 ?S1)) = 4"
    by (simp add: text_eval)
  from drawSegmentText_order [OF f1 s1] o1
  have r1: "fillFirst (textCalls (segmentText ?W1 ?S1))" by simp
  from drawSegmentText_order [OF f2 s2] o2
  have r2: "strokeFirst (textCalls (segmentText ?W2 ?S2))" by simp
  from f1 s1 o1 r1 n f2 s2 o2 r2 show ?thesis by simp
qed

text \<open>Claim C9 as stated fails: for the curved text \<open>A\<close> with both styles set, which is not
  outer-aligned horizontal text, the stroke call comes before the fill call.\<close>

theorem drawSegmentText_order_counterexample:
  "drawSegmentText (onCanvas (wheelOf [textSegment ''A'' Curved 0 360]))
     = Inr [Save, Save, Translate 201 201, Rotate (Some (degToRad 180)), Translate (- 201) (- 201),
            StrokeText ''A'' 201 91, FillText ''A'' 201 91, Restore, Restore]
   \<and> truthy (TextSettings.fillStyle (resolveText
         (onCanvas (wheelOf [textSegment ''A'' Curved 0 360])) (textSegment ''A'' Curved 0 360)))
   \<and> truthy (TextSettings.strokeStyle (resolveText
         (onCanvas (wheelOf [textSegment ''A'' Curved 0 360])) (textSegment ''A'' Curved 0 360)))
   \<and> \<not> fillFirst (textCalls (segmentText
         (onCanvas (wheelOf [textSegment ''A'' Curved 0 360])) (textSegment ''A'' Curved 0 360)))"
  by (simp add: drawSegmentText_def segmentAt_def array_get_def text_eval)

subsection \<open>The hit test at the middle of a segment\<close>
























lemmas hit_eval = segmentNumberAtLoc_def locationAngleOf_def unrotate_def
  getSegmentNumberAt_def windowToCanvas_def triangleAngle_def onCanvas_def wheelOf_def
  sizedSegment_def defaultOptions_def segmentAt_def array_get_def num_def Let_def
  getRotationPosition_def rotationPosition_def rotatedTo_def















text \<open>A segment of width 0 is never hit either: with the sizes unset and 360, segment 1
  runs from 0 to 0, the point above the center gets the angle 360, and the click at the
  window position (201, 101) returns segment 2.\<close>

lemma getSegmentNumberAt_zero_width_example:
  "updateSegmentSizes (wheelOf [sizedSegment None 0 0, sizedSegment (Some 360) 0 0])
     = Inr (wheelOf [sizedSegment None 0 0, sizedSegment (Some 360) 0 360])
   \<and> midPoint (onCanvas (wheelOf [sizedSegment None 0 0, sizedSegment (Some 360) 0 360]))
        (sizedSegment None 0 0) = (201, 101)
   \<and> getSegmentNumberAt
        (onCanvas (wheelOf [sizedSegment None 0 0, sizedSegment (Some 360) 0 360])) 201 101
     = Inr (Some 2)"
  by (simp add: wheel_eval midPoint_def pointAt_def hit_eval)

end
